theory Spec2Isabelle
  imports Complex_Main
begin

section \<open>Floating-point values\<close>

text \<open>
  The arrays and tensors of \<^verbatim>\<open>wai_dataset.py\<close> hold IEEE floating-point numbers.
  A value is a finite number, one of the two infinities, or not-a-number. Finite
  arithmetic is exact here: rounding and overflow to infinity are not modelled, nor is
  the sign of zero. The special values follow IEEE 754.
\<close>

datatype fval = Fin real | PInf | NInf | NaN

fun fneg :: "fval \<Rightarrow> fval" where
  "fneg (Fin x) = Fin (- x)"
| "fneg PInf = NInf"
| "fneg NInf = PInf"
| "fneg NaN = NaN"

fun fadd :: "fval \<Rightarrow> fval \<Rightarrow> fval" where
  "fadd NaN _ = NaN"
| "fadd _ NaN = NaN"
| "fadd (Fin x) (Fin y) = Fin (x + y)"
| "fadd PInf NInf = NaN"
| "fadd NInf PInf = NaN"
| "fadd PInf _ = PInf"
| "fadd _ PInf = PInf"
| "fadd NInf _ = NInf"
| "fadd _ NInf = NInf"

definition fsub :: "fval \<Rightarrow> fval \<Rightarrow> fval" where
  "fsub a b = fadd a (fneg b)"

text \<open>Multiplication by a finite factor \<open>s\<close> and the sign rules of the infinities.\<close>

fun inf_of_sign :: "real \<Rightarrow> fval" where
  "inf_of_sign s = (if s > 0 then PInf else if s < 0 then NInf else NaN)"

fun fmul :: "fval \<Rightarrow> fval \<Rightarrow> fval" where
  "fmul NaN _ = NaN"
| "fmul _ NaN = NaN"
| "fmul (Fin x) (Fin y) = Fin (x * y)"
| "fmul (Fin x) PInf = inf_of_sign x"
| "fmul (Fin x) NInf = inf_of_sign (- x)"
| "fmul PInf (Fin y) = inf_of_sign y"
| "fmul NInf (Fin y) = inf_of_sign (- y)"
| "fmul PInf PInf = PInf"
| "fmul NInf NInf = PInf"
| "fmul PInf NInf = NInf"
| "fmul NInf PInf = NInf"

text \<open>Division of an array entry by a positive finite constant (\<open>/= 2**i\<close>, \<open>/ 100\<close>).\<close>

fun fdiv_pos :: "fval \<Rightarrow> real \<Rightarrow> fval" where
  "fdiv_pos (Fin x) c = Fin (x / c)"
| "fdiv_pos PInf c = PInf"
| "fdiv_pos NInf c = NInf"
| "fdiv_pos NaN c = NaN"

text \<open>Comparisons: every comparison with not-a-number is false.\<close>

fun flt :: "fval \<Rightarrow> fval \<Rightarrow> bool" where
  "flt NaN _ = False"
| "flt _ NaN = False"
| "flt (Fin x) (Fin y) = (x < y)"
| "flt (Fin x) PInf = True"
| "flt NInf (Fin y) = True"
| "flt NInf PInf = True"
| "flt _ _ = False"

definition fgt :: "fval \<Rightarrow> fval \<Rightarrow> bool" where
  "fgt a b = flt b a"

fun np_isnan :: "fval \<Rightarrow> bool" where
  "np_isnan NaN = True"
| "np_isnan _ = False"

fun np_isinf :: "fval \<Rightarrow> bool" where
  "np_isinf PInf = True"
| "np_isinf NInf = True"
| "np_isinf _ = False"

fun np_isneginf :: "fval \<Rightarrow> bool" where
  "np_isneginf NInf = True"
| "np_isneginf _ = False"

fun is_finite :: "fval \<Rightarrow> bool" where
  "is_finite (Fin x) = True"
| "is_finite _ = False"

text \<open>\<^verbatim>\<open>np.sum\<close> over all entries of an array, here given as the list of its entries.\<close>

definition np_sum :: "fval list \<Rightarrow> fval" where
  "np_sum xs = foldl fadd (Fin 0) xs"

section \<open>Strings and paths\<close>

definition newline :: char where
  "newline = CHR 0x0A"

text \<open>\<^verbatim>\<open>s.rstrip("\n")\<close>: every trailing newline is removed.\<close>

definition rstrip_nl :: "string \<Rightarrow> string" where
  "rstrip_nl s = rev (dropWhile (\<lambda>c. c = newline) (rev s))"

text \<open>\<^verbatim>\<open>str(n)\<close> of a non-negative integer: its decimal digits.\<close>

definition digit_char :: "nat \<Rightarrow> char" where
  "digit_char d = ''0123456789'' ! d"

function str_nat :: "nat \<Rightarrow> string" where
  "str_nat n = (if n < 10 then [digit_char n] else str_nat (n div 10) @ [digit_char (n mod 10)])"
  by pat_completeness auto
termination
  by (relation "measure (\<lambda>n. n)") auto

declare str_nat.simps [simp del]

text \<open>\<^verbatim>\<open>sep.join(parts)\<close>.\<close>

fun join_str :: "string \<Rightarrow> string list \<Rightarrow> string" where
  "join_str sep [] = []"
| "join_str sep [x] = x"
| "join_str sep (x # y # ys) = x @ sep @ join_str sep (y # ys)"

text \<open>
  \<^verbatim>\<open>f.readlines()\<close>: the lines of a text, each with its terminating newline; a last
  line without one is kept as it is.
\<close>

fun readlines_from :: "string \<Rightarrow> string \<Rightarrow> string list" where
  "readlines_from cur [] = (if cur = [] then [] else [cur])"
| "readlines_from cur (c # cs) =
     (if c = newline then (cur @ [c]) # readlines_from [] cs
      else readlines_from (cur @ [c]) cs)"

definition readlines :: "string \<Rightarrow> string list" where
  "readlines txt = readlines_from [] txt"

text \<open>
  \<^verbatim>\<open>os.path.join\<close> on POSIX: an absolute component discards what came before it, and a
  separator is inserted unless the path so far is empty or already ends with one. The
  same function stands for \<^verbatim>\<open>pathlib\<close>'s \<open>/\<close> operator: a path is only ever used as the
  key under which the file system is asked for a file, so \<^verbatim>\<open>pathlib\<close>'s removal of
  redundant separators is left out.
\<close>

definition path_join2 :: "string \<Rightarrow> string \<Rightarrow> string" where
  "path_join2 p b =
     (if b \<noteq> [] \<and> hd b = CHR ''/'' then b
      else if p = [] \<or> last p = CHR ''/'' then p @ b
      else p @ ''/'' @ b)"

definition os_path_join :: "string \<Rightarrow> string list \<Rightarrow> string" where
  "os_path_join a ps = foldl path_join2 a ps"

text \<open>\<^verbatim>\<open>s.split("/")[-1]\<close>: what follows the last slash (all of \<open>s\<close> when it has none).\<close>

definition split_last :: "string \<Rightarrow> string" where
  "split_last s = rev (takeWhile (\<lambda>c. c \<noteq> CHR ''/'') (rev s))"

text \<open>\<^verbatim>\<open>needle in haystack\<close> on strings.\<close>

fun is_prefix_of :: "string \<Rightarrow> string \<Rightarrow> bool" where
  "is_prefix_of [] ys = True"
| "is_prefix_of (x # xs) [] = False"
| "is_prefix_of (x # xs) (y # ys) = (x = y \<and> is_prefix_of xs ys)"

fun str_contains :: "string \<Rightarrow> string \<Rightarrow> bool" where
  "str_contains needle [] = (needle = [])"
| "str_contains needle (c # cs) = (is_prefix_of needle (c # cs) \<or> str_contains needle cs)"

section \<open>Python dictionaries\<close>

text \<open>
  A \<^verbatim>\<open>dict\<close> keeps its keys in insertion order: an association list with distinct keys.
  Storing under a key that is present replaces the value where it stands.
\<close>

fun dict_set :: "('k \<times> 'v) list \<Rightarrow> 'k \<Rightarrow> 'v \<Rightarrow> ('k \<times> 'v) list" where
  "dict_set [] k v = [(k, v)]"
| "dict_set ((k', v') # d) k v = (if k' = k then (k, v) # d else (k', v') # dict_set d k v)"

definition dict_get :: "('k \<times> 'v) list \<Rightarrow> 'k \<Rightarrow> 'v option" where
  "dict_get d k = map_of d k"

definition dict_keys :: "('k \<times> 'v) list \<Rightarrow> 'k list" where
  "dict_keys d = map fst d"

section \<open>Errors\<close>

datatype error =
    KeyError
  | FileNotFoundError
  | ZeroDivisionError
  | LinAlgError
  | ShapeError
  | TypeError
  | CvError
  | OSError

section \<open>Matrices\<close>

text \<open>A matrix is the list of its rows. All matrices of the dataset are 4 by 4.\<close>

type_synonym mat = "fval list list"

text \<open>
  \<^verbatim>\<open>torch.tensor(xs, dtype=torch.float32).view(4, 4)\<close>: the 16 numbers in row-major order;
  any other count is refused.
\<close>

definition view44 :: "fval list \<Rightarrow> error + mat" where
  "view44 xs =
     (if length xs = 16
      then Inr [take 4 xs, take 4 (drop 4 xs), take 4 (drop 8 xs), take 4 (drop 12 xs)]
      else Inl ShapeError)"

definition mat_entries :: "mat \<Rightarrow> fval list" where
  "mat_entries M = concat M"

definition entry :: "mat \<Rightarrow> nat \<Rightarrow> nat \<Rightarrow> fval" where
  "entry M i j = M ! i ! j"

definition set_entry :: "mat \<Rightarrow> nat \<Rightarrow> nat \<Rightarrow> fval \<Rightarrow> mat" where
  "set_entry M i j v = M[i := (M ! i)[j := v]]"

text \<open>\<^verbatim>\<open>M[i] *= s\<close>: row \<open>i\<close> times a scalar.\<close>

definition scale_row :: "mat \<Rightarrow> nat \<Rightarrow> fval \<Rightarrow> mat" where
  "scale_row M i s = M[i := map (\<lambda>x. fmul x s) (M ! i)]"

text \<open>\<^verbatim>\<open>A *= B\<close>: the entrywise product.\<close>

definition mul_entrywise :: "mat \<Rightarrow> mat \<Rightarrow> mat" where
  "mul_entrywise A B = map (\<lambda>(ra, rb). map (\<lambda>(a, b). fmul a b) (zip ra rb)) (zip A B)"

definition gl_to_cv :: mat where
  "gl_to_cv =
     [[Fin 1, Fin (- 1), Fin (- 1), Fin 1],
      [Fin (- 1), Fin 1, Fin 1, Fin (- 1)],
      [Fin (- 1), Fin 1, Fin 1, Fin (- 1)],
      [Fin 1, Fin 1, Fin 1, Fin 1]]"

text \<open>
  \<^verbatim>\<open>np.linalg.inv\<close> and \<^verbatim>\<open>torch.linalg.inv\<close> are routines of the numerical libraries: they
  return the inverse or raise on a matrix they find singular. Which floating-point
  matrices they find singular, and what they return on entries that are not finite, is
  theirs to decide, so the functions of the dataset take the routine as a parameter.
\<close>

type_synonym inv_routine = "mat \<Rightarrow> error + mat"

section \<open>Scene metadata\<close>

text \<open>
  One entry of \<^verbatim>\<open>"frames"\<close> in \<^verbatim>\<open>scene_meta.json\<close>. The intrinsics fields are optional:
  the code asks \<^verbatim>\<open>"w" in frame_data\<close> and falls back to the scene's value.
\<close>

record frame =
  file_path :: string
  transform_matrix :: "fval list"
  f_w :: "fval option"
  f_h :: "fval option"
  f_cx :: "fval option"
  f_cy :: "fval option"
  f_fl_x :: "fval option"
  f_fl_y :: "fval option"

text \<open>What \<^verbatim>\<open>json.load\<close> returns for \<^verbatim>\<open>scene_meta.json\<close>: \<^verbatim>\<open>"frames"\<close> is a list.\<close>

record scene_meta =
  s_w :: "fval option"
  s_h :: "fval option"
  s_cx :: "fval option"
  s_cy :: "fval option"
  s_fl_x :: "fval option"
  s_fl_y :: "fval option"
  s_frames :: "frame list"

text \<open>
  An entry of \<^verbatim>\<open>self.capture_metadata\<close>: the scene's values, with \<^verbatim>\<open>"frames"\<close> replaced by
  the dictionary from \<^verbatim>\<open>file_path\<close> to frame.
\<close>

record capture =
  c_w :: "fval option"
  c_h :: "fval option"
  c_cx :: "fval option"
  c_cy :: "fval option"
  c_fl_x :: "fval option"
  c_fl_y :: "fval option"
  c_frames :: "(string \<times> frame) list"

text \<open>
  Python values as far as \<^verbatim>\<open>load_pose\<close> compares them with \<^verbatim>\<open>==\<close>: a string, or the
  dictionary of frames. A string and a dictionary are never equal.
\<close>

datatype pyval = PyStr string | PyDict "(string \<times> frame) list"

fun py_eq :: "pyval \<Rightarrow> pyval \<Rightarrow> bool" where
  "py_eq (PyStr a) (PyStr b) = (a = b)"
| "py_eq (PyDict a) (PyDict b) = (map_of a = map_of b)"
| "py_eq _ _ = False"

section \<open>The dataset object and its surroundings\<close>

text \<open>What \<^verbatim>\<open>cv2.imread\<close> does on a path: an image, \<^verbatim>\<open>None\<close>, or an exception.\<close>

type_synonym image = "fval list list"

datatype imread_result = Decoded image | ReturnsNone | Raises

text \<open>What \<^verbatim>\<open>print\<close> wrote: a line of text, or an exception object.\<close>

datatype out = Print string | PrintExc error

text \<open>
  The configuration of a \<^verbatim>\<open>WAIDataset\<close>. The sizes and flags are set by the base class
  \<^verbatim>\<open>GenericMVSDataset\<close>, whose method \<^verbatim>\<open>get_sub_folder_dir\<close> is a field here.
\<close>

record config =
  dataset_path :: string
  split :: string
  get_sub_folder_dir :: "string \<Rightarrow> string"
  depth_mode :: string
  depth_height :: nat
  depth_width :: nat
  matching_height :: nat
  matching_width :: nat
  rotate_images :: bool
  include_full_depth_K :: bool
  prediction_num_scales :: nat

text \<open>
  The state a call reads and writes: the files (texts as Python reads them, metadata
  files as \<^verbatim>\<open>json.load\<close> returns them, images as \<^verbatim>\<open>cv2.imread\<close> answers), the paths on which
  opening for writing or \<^verbatim>\<open>mkdir\<close> fails, the directories made, the dataset's metadata
  cache and the output printed.
\<close>

record world =
  text_files :: "string \<rightharpoonup> string"
  meta_files :: "string \<rightharpoonup> scene_meta"
  image_files :: "string \<rightharpoonup> imread_result"
  write_error :: "string \<Rightarrow> error option"
  mkdir_error :: "string \<Rightarrow> error option"
  made_dirs :: "string list"
  capture_metadata :: "string \<rightharpoonup> capture"
  stdout :: "out list"

definition print :: "string \<Rightarrow> world \<Rightarrow> world" where
  "print s w = w\<lparr>stdout := stdout w @ [Print s]\<rparr>"

definition print_exc :: "error \<Rightarrow> world \<Rightarrow> world" where
  "print_exc e w = w\<lparr>stdout := stdout w @ [PrintExc e]\<rparr>"

text \<open>\<^verbatim>\<open>os.path.exists\<close>, asked of the path of a text file; the empty path never exists.\<close>

definition os_path_exists :: "world \<Rightarrow> string \<Rightarrow> bool" where
  "os_path_exists w p = (p \<noteq> [] \<and> text_files w p \<noteq> None)"

section \<open>Metadata loader\<close>

definition frame_dict :: "frame list \<Rightarrow> (string \<times> frame) list" where
  "frame_dict fs = foldl (\<lambda>d f. dict_set d (file_path f) f) [] fs"

definition capture_of :: "scene_meta \<Rightarrow> capture" where
  "capture_of m =
     \<lparr>c_w = s_w m, c_h = s_h m, c_cx = s_cx m, c_cy = s_cy m,
      c_fl_x = s_fl_x m, c_fl_y = s_fl_y m, c_frames = frame_dict (s_frames m)\<rparr>"

definition load_capture_metadata :: "config \<Rightarrow> world \<Rightarrow> string \<Rightarrow> error + world" where
  "load_capture_metadata cfg w scan_id =
     (if capture_metadata w scan_id \<noteq> None then Inr w
      else
        let metadata_path =
              os_path_join (dataset_path cfg)
                [get_sub_folder_dir cfg (split cfg), scan_id, ''scene_meta.json'']
        in case meta_files w metadata_path of
             None \<Rightarrow> Inl FileNotFoundError
           | Some m \<Rightarrow>
               Inr (w\<lparr>capture_metadata := (capture_metadata w)(scan_id \<mapsto> capture_of m)\<rparr>))"

section \<open>Pose resolver\<close>

definition load_pose ::
  "inv_routine \<Rightarrow> config \<Rightarrow> world \<Rightarrow> string \<Rightarrow> string \<Rightarrow> error + ((mat \<times> mat) \<times> world)" where
  "load_pose linalg_inv cfg w scan_id frame_id =
     (case load_capture_metadata cfg w scan_id of
        Inl e \<Rightarrow> Inl e
      | Inr w1 \<Rightarrow>
          (case capture_metadata w1 scan_id of
             None \<Rightarrow> Inl KeyError
           | Some cap \<Rightarrow>
               (case dict_get (c_frames cap) frame_id of
                  None \<Rightarrow> Inl KeyError
                | Some frame_metadata \<Rightarrow>
                    (case view44 (transform_matrix frame_metadata) of
                       Inl e \<Rightarrow> Inl e
                     | Inr world_T_cam0 \<Rightarrow>
                         let world_T_cam =
                               (if py_eq (PyDict (c_frames cap)) (PyStr ''opengl'')
                                then mul_entrywise world_T_cam0 gl_to_cv
                                else world_T_cam0)
                         in (case linalg_inv world_T_cam of
                               Inl e \<Rightarrow> Inl e
                             | Inr cam_T_world \<Rightarrow> Inr ((world_T_cam, cam_T_world), w1))))))"

section \<open>Valid-frame enumerator\<close>

definition get_valid_frame_path :: "config \<Rightarrow> world \<Rightarrow> string \<Rightarrow> string \<Rightarrow> error + (string \<times> world)" where
  "get_valid_frame_path cfg w split' scan =
     (let scan_dir =
            os_path_join (dataset_path cfg) [''valid_frames'', get_sub_folder_dir cfg split', scan]
      in case mkdir_error w scan_dir of
           Some e \<Rightarrow> Inl e
         | None \<Rightarrow>
             Inr (os_path_join scan_dir [''valid_frames.txt''],
                  w\<lparr>made_dirs := made_dirs w @ [scan_dir]\<rparr>))"

text \<open>The check of lines 201 to 205 on a pose matrix.\<close>

definition bad_pose :: "mat \<Rightarrow> bool" where
  "bad_pose world_T_cam_44 =
     (np_isnan (np_sum (mat_entries world_T_cam_44))
      \<or> np_isinf (np_sum (mat_entries world_T_cam_44))
      \<or> np_isneginf (np_sum (mat_entries world_T_cam_44)))"

definition frame_line :: "string \<Rightarrow> string \<Rightarrow> nat \<Rightarrow> string" where
  "frame_line scan frame_ind gap = scan @ '' '' @ frame_ind @ '' '' @ str_nat gap"

text \<open>
  The loop of lines 199 to 211 over the keys of the frame dictionary. The loop state is
  \<open>(valid_frames, dist_to_last_valid_frame, bad_file_count), written (valid_frames, gap, bad_count)\<close>.
\<close>

fun valid_frames_loop ::
  "inv_routine \<Rightarrow> config \<Rightarrow> string \<Rightarrow> string list \<Rightarrow> world \<Rightarrow> string list \<times> nat \<times> nat
   \<Rightarrow> error + ((string list \<times> nat \<times> nat) \<times> world)" where
  "valid_frames_loop linalg_inv cfg scan [] w acc = Inr (acc, w)"
| "valid_frames_loop linalg_inv cfg scan (frame_ind # rest) w (valid_frames, gap, bad_count) =
     (case load_pose linalg_inv cfg w scan frame_ind of
        Inl e \<Rightarrow> Inl e
      | Inr ((world_T_cam_44, _), w1) \<Rightarrow>
          if bad_pose world_T_cam_44
          then valid_frames_loop linalg_inv cfg scan rest w1 (valid_frames, gap + 1, bad_count + 1)
          else valid_frames_loop linalg_inv cfg scan rest w1
                 (valid_frames @ [frame_line scan frame_ind gap], 0, bad_count))"

text \<open>
  Lines 220 to 227: the write inside \<^verbatim>\<open>try\<close>; a failure prints the two lines and goes on.
\<close>

definition save_failed_line :: "string \<Rightarrow> string" where
  "save_failed_line valid_frame_path =
     ''Couldn't save valid_frames at '' @ valid_frame_path @ '', cause:''"

definition store_valid_frames :: "world \<Rightarrow> string \<Rightarrow> string list \<Rightarrow> world" where
  "store_valid_frames w valid_frame_path valid_frames =
     (case write_error w valid_frame_path of
        None \<Rightarrow>
          w\<lparr>text_files := (text_files w)(valid_frame_path \<mapsto>
               join_str [newline] valid_frames @ [newline])\<rparr>
      | Some e \<Rightarrow>
          print_exc e (print (save_failed_line valid_frame_path) w))"

text \<open>The two lines the computation prints (lines 188 and 213 to 216).\<close>

definition computing_line :: "string \<Rightarrow> string" where
  "computing_line scan = ''Computing valid frames for scene '' @ scan @ ''.''"

definition summary_line :: "string \<Rightarrow> nat \<Rightarrow> nat \<Rightarrow> string" where
  "summary_line scan bad_file_count color_file_count =
     ''Scene '' @ scan @ '' has '' @ str_nat bad_file_count @ '' bad frame files out of ''
       @ str_nat color_file_count @ ''.''"

definition compute_valid_frames ::
  "inv_routine \<Rightarrow> config \<Rightarrow> world \<Rightarrow> string \<Rightarrow> string \<Rightarrow> bool \<Rightarrow> error + (string list \<times> world)" where
  "compute_valid_frames linalg_inv cfg w scan valid_frame_path store_computed =
     (let w1 = print (computing_line scan) w
      in case load_capture_metadata cfg w1 scan of
           Inl e \<Rightarrow> Inl e
         | Inr w2 \<Rightarrow>
             (case capture_metadata w2 scan of
                None \<Rightarrow> Inl KeyError
              | Some cap \<Rightarrow>
                  let color_file_count = length (c_frames cap)
                  in (case valid_frames_loop linalg_inv cfg scan (dict_keys (c_frames cap)) w2 ([], 0, 0) of
                        Inl e \<Rightarrow> Inl e
                      | Inr ((valid_frames, _, bad_file_count), w3) \<Rightarrow>
                          let w4 = print (summary_line scan bad_file_count color_file_count) w3
                          in Inr (valid_frames,
                                  if store_computed
                                  then store_valid_frames w4 valid_frame_path valid_frames
                                  else w4))))"

text \<open>Lines 177 to 180: where the cache is looked for; the empty path when nothing is to be stored.\<close>

definition valid_frame_target ::
  "config \<Rightarrow> world \<Rightarrow> string \<Rightarrow> string \<Rightarrow> bool \<Rightarrow> error + (string \<times> world)" where
  "valid_frame_target cfg w split' scan store_computed =
     (if store_computed then get_valid_frame_path cfg w split' scan else Inr ([], w))"

definition get_valid_frame_ids ::
  "inv_routine \<Rightarrow> config \<Rightarrow> world \<Rightarrow> string \<Rightarrow> string \<Rightarrow> bool \<Rightarrow> error + (string list \<times> world)" where
  "get_valid_frame_ids linalg_inv cfg w split' scan0 store_computed =
     (let scan = rstrip_nl scan0
      in case valid_frame_target cfg w split' scan store_computed of
           Inl e \<Rightarrow> Inl e
         | Inr (valid_frame_path, w1) \<Rightarrow>
             if os_path_exists w1 valid_frame_path
             then (case text_files w1 valid_frame_path of
                     None \<Rightarrow> Inl FileNotFoundError
                   | Some txt \<Rightarrow> Inr (readlines txt, w1))
             else compute_valid_frames linalg_inv cfg w1 scan valid_frame_path store_computed)"

section \<open>Intrinsics resolver\<close>

text \<open>
  A step that may raise, followed by what is done with its value: an exception ends the
  call. A dictionary lookup raises \<^verbatim>\<open>KeyError\<close> on a missing key.
\<close>

definition bind_err :: "error + 'a \<Rightarrow> ('a \<Rightarrow> error + 'b) \<Rightarrow> error + 'b" where
  "bind_err m f = (case m of Inl e \<Rightarrow> Inl e | Inr x \<Rightarrow> f x)"

definition key_or_raise :: "'a option \<Rightarrow> error + 'a" where
  "key_or_raise v = (case v of None \<Rightarrow> Inl KeyError | Some x \<Rightarrow> Inr x)"

text \<open>
  A field of the frame, or else of the scene (lines 293 to 298); \<^verbatim>\<open>KeyError\<close> when neither
  has it.
\<close>

definition field_or :: "fval option \<Rightarrow> fval option \<Rightarrow> error + fval" where
  "field_or frame_value scene_value =
     (case frame_value of
        Some v \<Rightarrow> Inr v
      | None \<Rightarrow> (case scene_value of Some v \<Rightarrow> Inr v | None \<Rightarrow> Inl KeyError))"

text \<open>
  Python's \<^verbatim>\<open>n / float(x)\<close> for an integer \<open>n\<close>: division by zero raises; a finite number over
  an infinity is 0.
\<close>

fun py_truediv :: "nat \<Rightarrow> fval \<Rightarrow> error + fval" where
  "py_truediv n (Fin x) = (if x = 0 then Inl ZeroDivisionError else Inr (Fin (real n / x)))"
| "py_truediv n PInf = Inr (Fin 0)"
| "py_truediv n NInf = Inr (Fin 0)"
| "py_truediv n NaN = Inr NaN"

text \<open>Lines 304 to 307: the 4 by 4 intrinsics matrix in pixel coordinates.\<close>

definition intrinsics_matrix :: "fval \<Rightarrow> fval \<Rightarrow> fval \<Rightarrow> fval \<Rightarrow> mat" where
  "intrinsics_matrix f_x f_y c_x c_y =
     [[f_x, Fin 0, c_x, Fin 0],
      [Fin 0, f_y, c_y, Fin 0],
      [Fin 0, Fin 0, Fin 1, Fin 0],
      [Fin 0, Fin 0, Fin 0, Fin 1]]"

text \<open>
  Lines 318 to 322 and 324 to 328: the four assignments that turn a matrix into the one
  of the rotated image, for the image height given.
\<close>

definition rotate_intrinsics :: "mat \<Rightarrow> nat \<Rightarrow> mat" where
  "rotate_intrinsics M height =
     (let temp = M;
          M1 = set_entry M 0 0 (entry temp 1 1);
          M2 = set_entry M1 1 1 (entry temp 0 0);
          M3 = set_entry M2 1 2 (entry temp 0 2)
      in set_entry M3 0 2 (fsub (Fin (real height)) (entry temp 1 2)))"

text \<open>Lines 340 to 344: focal lengths and principal point divided by \<open>2 ** i\<close>.\<close>

definition scale_intrinsics :: "mat \<Rightarrow> nat \<Rightarrow> mat" where
  "scale_intrinsics K_depth i =
     (let M1 = set_entry K_depth 0 0 (fdiv_pos (entry K_depth 0 0) (2 ^ i));
          M2 = set_entry M1 1 1 (fdiv_pos (entry M1 1 1) (2 ^ i));
          M3 = set_entry M2 0 2 (fdiv_pos (entry M2 0 2) (2 ^ i))
      in set_entry M3 1 2 (fdiv_pos (entry M3 1 2) (2 ^ i)))"

definition K_name :: "nat \<Rightarrow> string" where
  "K_name i = ''K_s'' @ str_nat i @ ''_b44''"

definition invK_name :: "nat \<Rightarrow> string" where
  "invK_name i = ''invK_s'' @ str_nat i @ ''_b44''"

text \<open>The loop of lines 339 to 346 over the scales still to do.\<close>

fun scales_loop ::
  "inv_routine \<Rightarrow> mat \<Rightarrow> nat list \<Rightarrow> (string \<times> mat) list \<Rightarrow> error + (string \<times> mat) list" where
  "scales_loop linalg_inv K_depth [] output_dict = Inr output_dict"
| "scales_loop linalg_inv K_depth (i # rest) output_dict =
     (let K_scaled = scale_intrinsics K_depth i
      in case linalg_inv K_scaled of
           Inl e \<Rightarrow> Inl e
         | Inr invK \<Rightarrow>
             scales_loop linalg_inv K_depth rest
               (dict_set (dict_set output_dict (K_name i) K_scaled) (invK_name i) invK))"

text \<open>
  Lines 309 to 348, from the matrix \<open>K\<close> on. The rotated \<open>K\<close> of lines 318 to 322 is
  computed and not used again: \<open>K_depth\<close> was copied from \<open>K\<close> before.
\<close>

definition intrinsics_dict ::
  "inv_routine \<Rightarrow> config \<Rightarrow> mat \<Rightarrow> fval \<Rightarrow> fval \<Rightarrow> error + (string \<times> mat) list" where
  "intrinsics_dict linalg_inv cfg K width_pixels height_pixels =
     bind_err (py_truediv (matching_width cfg) width_pixels) (\<lambda>mx.
     bind_err (py_truediv (matching_height cfg) height_pixels) (\<lambda>my.
     bind_err (py_truediv (depth_width cfg) width_pixels) (\<lambda>dx.
     bind_err (py_truediv (depth_height cfg) height_pixels) (\<lambda>dy.
       let K_matching0 = scale_row (scale_row K 0 mx) 1 my;
           K_depth = scale_row (scale_row K 0 dx) 1 dy;
           K_rotated = (if rotate_images cfg then rotate_intrinsics K (depth_height cfg) else K);
           K_matching = (if rotate_images cfg
                         then rotate_intrinsics K_matching0 (matching_height cfg)
                         else K_matching0)
       in bind_err (linalg_inv K_matching) (\<lambda>invK_matching.
          bind_err
            (if include_full_depth_K cfg
             then bind_err (linalg_inv K_depth) (\<lambda>invK_depth.
                    Inr (dict_set
                           (dict_set
                              (dict_set (dict_set [] ''K_matching_b44'' K_matching)
                                 ''invK_matching_b44'' invK_matching)
                              ''K_full_depth_b44'' K_depth)
                           ''invK_full_depth_b44'' invK_depth))
             else Inr (dict_set (dict_set [] ''K_matching_b44'' K_matching)
                         ''invK_matching_b44'' invK_matching))
            (\<lambda>output_dict.
               scales_loop linalg_inv K_depth [0..<prediction_num_scales cfg] output_dict))))))"

text \<open>\<^verbatim>\<open>load_intrinsics\<close> (lines 287 to 348); the second value returned is always \<^verbatim>\<open>None\<close>.\<close>

definition load_intrinsics ::
  "inv_routine \<Rightarrow> config \<Rightarrow> world \<Rightarrow> string \<Rightarrow> string \<Rightarrow> bool
   \<Rightarrow> error + ((string \<times> mat) list \<times> world)" where
  "load_intrinsics linalg_inv cfg w scan_id frame_id flip =
     bind_err (load_capture_metadata cfg w scan_id) (\<lambda>w1.
     bind_err (key_or_raise (capture_metadata w1 scan_id)) (\<lambda>json_data.
     bind_err (key_or_raise (dict_get (c_frames json_data) frame_id)) (\<lambda>frame_data.
     bind_err (field_or (f_w frame_data) (c_w json_data)) (\<lambda>width_pixels.
     bind_err (field_or (f_h frame_data) (c_h json_data)) (\<lambda>height_pixels.
     bind_err (field_or (f_cx frame_data) (c_cx json_data)) (\<lambda>c_x0.
     bind_err (field_or (f_cy frame_data) (c_cy json_data)) (\<lambda>c_y.
     bind_err (field_or (f_fl_x frame_data) (c_fl_x json_data)) (\<lambda>f_x.
     bind_err (field_or (f_fl_y frame_data) (c_fl_y json_data)) (\<lambda>f_y.
       let c_x = (if flip then fsub width_pixels c_x0 else c_x0);
           K = intrinsics_matrix f_x f_y c_x c_y
       in bind_err (intrinsics_dict linalg_inv cfg K width_pixels height_pixels) (\<lambda>output_dict.
            Inr (output_dict, w1)))))))))))"

section \<open>Depth loader\<close>

text \<open>
  Lines 430 to 437: the depth file of a frame is \<^verbatim>\<open>frame_id.split("/")[-1][:-3] + "exr"\<close> under
  the scan's \<^verbatim>\<open>depth_mode\<close> directory; the path is returned only when the file exists.
\<close>

definition depth_file_name :: "string \<Rightarrow> string" where
  "depth_file_name frame_id =
     (let name = split_last frame_id in take (length name - 3) name @ ''exr'')"

definition get_full_res_depth_filepath :: "config \<Rightarrow> world \<Rightarrow> string \<Rightarrow> string \<Rightarrow> string option" where
  "get_full_res_depth_filepath cfg w scan_id frame_id =
     (let path = os_path_join (dataset_path cfg) [scan_id, depth_mode cfg, depth_file_name frame_id]
      in if image_files w path \<noteq> None then Some path else None)"

text \<open>\<^verbatim>\<open>cv2.imread\<close>: what the file system answers for the path; \<^verbatim>\<open>None\<close> when there is no file.\<close>

definition imread :: "world \<Rightarrow> string \<Rightarrow> imread_result" where
  "imread w path = (case image_files w path of Some r \<Rightarrow> r | None \<Rightarrow> ReturnsNone)"

text \<open>
  \<^verbatim>\<open>_load_depth\<close> (lines 510 to 517): an exception of \<^verbatim>\<open>cv2.imread\<close> is caught and replaced
  by \<^verbatim>\<open>np.zeros((1000, 1000))\<close>; a \<^verbatim>\<open>None\<close> that \<^verbatim>\<open>cv2.imread\<close> returns is passed on.
\<close>

definition load_depth :: "world \<Rightarrow> string \<Rightarrow> image option" where
  "load_depth w depth_path =
     (case imread w depth_path of
        Decoded img \<Rightarrow> Some img
      | ReturnsNone \<Rightarrow> None
      | Raises \<Rightarrow> Some (replicate 1000 (replicate 1000 (Fin 0))))"

text \<open>Entrywise operations on a two-dimensional array.\<close>

definition map2d :: "('a \<Rightarrow> 'b) \<Rightarrow> 'a list list \<Rightarrow> 'b list list" where
  "map2d f a = map (map f) a"

definition zip2d :: "'a list list \<Rightarrow> 'b list list \<Rightarrow> ('a \<times> 'b) list list" where
  "zip2d a b = map (\<lambda>(ra, rb). zip ra rb) (zip a b)"

text \<open>\<^verbatim>\<open>(a < 65000).any()\<close> and \<^verbatim>\<open>a[a < 65000]\<close>.\<close>

definition below_65000 :: "fval \<Rightarrow> bool" where
  "below_65000 x = flt x (Fin 65000)"

definition any_below_65000 :: "image \<Rightarrow> bool" where
  "any_below_65000 a = list_ex below_65000 (concat a)"

definition values_below_65000 :: "image \<Rightarrow> fval list" where
  "values_below_65000 a = filter below_65000 (concat a)"

text \<open>
  \<^verbatim>\<open>np.quantile(a, q)\<close> with numpy's default, linear interpolation: on the sorted values the
  position \<open>q * (n - 1)\<close> is split into its floor and the rest \<open>t\<close>, and the result
  interpolates between the value at the floor and the next one. The interpolation is
  numpy's: \<open>a + (b - a) * t\<close>, and \<open>b - (b - a) * (1 - t)\<close> from \<open>t = 1/2\<close> on. Sorting puts
  not-a-number last. On no values at all the result is not-a-number.
\<close>

fun fle :: "fval \<Rightarrow> fval \<Rightarrow> bool" where
  "fle _ NaN = True"
| "fle NaN _ = False"
| "fle NInf _ = True"
| "fle _ NInf = False"
| "fle _ PInf = True"
| "fle PInf _ = False"
| "fle (Fin x) (Fin y) = (x \<le> y)"

fun finsert :: "fval \<Rightarrow> fval list \<Rightarrow> fval list" where
  "finsert x [] = [x]"
| "finsert x (y # ys) = (if fle x y then x # y # ys else y # finsert x ys)"

definition np_sort :: "fval list \<Rightarrow> fval list" where
  "np_sort xs = foldr finsert xs []"

definition lerp :: "fval \<Rightarrow> fval \<Rightarrow> real \<Rightarrow> fval" where
  "lerp a b t =
     (if t \<ge> 1 / 2 then fsub b (fmul (fsub b a) (Fin (1 - t)))
      else fadd a (fmul (fsub b a) (Fin t)))"

definition np_quantile :: "fval list \<Rightarrow> real \<Rightarrow> fval" where
  "np_quantile xs q =
     (if xs = [] then NaN
      else
        let s = np_sort xs;
            n = length s;
            virtual_index = q * real (n - 1);
            previous_index = nat \<lfloor>virtual_index\<rfloor>;
            next_index = min (previous_index + 1) (n - 1);
            t = virtual_index - real previous_index
        in lerp (s ! previous_index) (s ! next_index) t)"

text \<open>
  The three tensors a loader returns, each of shape \<open>(1, height, width)\<close>: the depth, the
  float mask and the boolean mask.
\<close>

type_synonym depth_result = "fval list list list \<times> fval list list list \<times> bool list list list"

definition float_of_bool :: "bool \<Rightarrow> fval" where
  "float_of_bool b = (if b then Fin 1 else Fin 0)"

text \<open>Lines 477 to 482 and 543 to 548: the answer when there is no depth file.\<close>

definition missing_depth :: "config \<Rightarrow> depth_result" where
  "missing_depth cfg =
     ([replicate (depth_height cfg) (replicate (depth_width cfg) NaN)],
      [replicate (depth_height cfg) (replicate (depth_width cfg) (Fin 0))],
      [replicate (depth_height cfg) (replicate (depth_width cfg) False)])"

text \<open>\<^verbatim>\<open>depth[~mask_b] = nan\<close>.\<close>

definition nan_where_invalid :: "image \<Rightarrow> bool list list \<Rightarrow> image" where
  "nan_where_invalid depth mask_b = map2d (\<lambda>(x, m). if m then x else NaN) (zip2d depth mask_b)"

text \<open>
  \<^verbatim>\<open>load_full_res_depth_and_mask\<close> (lines 472 to 508). Line 485 reads the file a second time,
  outside any \<^verbatim>\<open>try\<close>; the image it returns is not used. The file system does not change
  between the two reads. A comparison of \<^verbatim>\<open>None\<close> with a number raises \<^verbatim>\<open>TypeError\<close>.
\<close>

definition load_full_res_depth_and_mask ::
  "config \<Rightarrow> world \<Rightarrow> string \<Rightarrow> string \<Rightarrow> error + depth_result" where
  "load_full_res_depth_and_mask cfg w scan_id frame_id =
     (case get_full_res_depth_filepath cfg w scan_id frame_id of
        None \<Rightarrow> Inr (missing_depth cfg)
      | Some full_res_depth_filepath \<Rightarrow>
          let loaded = load_depth w full_res_depth_filepath
          in (case imread w full_res_depth_filepath of
                Raises \<Rightarrow> Inl CvError
              | _ \<Rightarrow>
                  (case loaded of
                     None \<Rightarrow> Inl TypeError
                   | Some full_res_depth \<Rightarrow>
                       let full_res_mask_b =
                             (if str_contains ''street'' scan_id \<and> any_below_65000 full_res_depth
                              then map2d (\<lambda>x. flt x (np_quantile (values_below_65000 full_res_depth) (95 / 100)))
                                     full_res_depth
                              else map2d (\<lambda>x. fgt x (Fin 0)) full_res_depth)
                       in Inr ([nan_where_invalid full_res_depth full_res_mask_b],
                               [map2d float_of_bool full_res_mask_b],
                               [full_res_mask_b]))))"

text \<open>
  A Python slice \<^verbatim>\<open>xs[a:b]\<close>: a negative index counts from the end, and both ends are
  clamped to the list.
\<close>

definition slice_index :: "nat \<Rightarrow> int \<Rightarrow> nat" where
  "slice_index n i = (if i < 0 then nat (max (i + int n) 0) else min (nat i) n)"

definition py_slice :: "'a list \<Rightarrow> int \<Rightarrow> int \<Rightarrow> 'a list" where
  "py_slice xs a b =
     (let start = slice_index (length xs) a; stop = slice_index (length xs) b
      in take (stop - start) (drop start xs))"

text \<open>\<^verbatim>\<open>depth[crop[1]:crop[3], crop[0]:crop[2]]\<close>, the crop being (left, top, right, bottom).\<close>

definition crop_image :: "image \<Rightarrow> int \<times> int \<times> int \<times> int \<Rightarrow> image" where
  "crop_image depth crop =
     (case crop of (c_left, c_top, c_right, c_bottom) \<Rightarrow>
        map (\<lambda>row. py_slice row c_left c_right) (py_slice depth c_top c_bottom))"

text \<open>
  \<^verbatim>\<open>cv2.resize(src, dsize=(width, height), interpolation=cv2.INTER_NEAREST)\<close>: the pixel
  \<open>(y, x)\<close> of the result is the pixel \<open>(min (floor (y * h / height)) (h - 1),
  min (floor (x * w / width)) (w - 1))\<close> of the source of \<open>h\<close> rows and \<open>w\<close> columns. An empty
  source or an empty size is an error of OpenCV.
\<close>

definition cv2_resize_nearest :: "image \<Rightarrow> nat \<Rightarrow> nat \<Rightarrow> error + image" where
  "cv2_resize_nearest src width height =
     (let h = length src; w = (if src = [] then 0 else length (hd src))
      in if h = 0 \<or> w = 0 \<or> width = 0 \<or> height = 0 then Inl CvError
         else Inr (map (\<lambda>y. map (\<lambda>x. src ! min ((y * h) div height) (h - 1)
                                           ! min ((x * w) div width) (w - 1))
                                [0..<width])
                     [0..<height]))"

text \<open>
  \<^verbatim>\<open>load_target_size_depth_and_mask\<close> (lines 538 to 576). Subscripting \<^verbatim>\<open>None\<close> raises
  \<^verbatim>\<open>TypeError\<close>, and \<^verbatim>\<open>cv2.resize\<close> refuses \<^verbatim>\<open>None\<close>. The call prints \<^verbatim>\<open>0\<close> when no
  pixel is valid.
\<close>

definition load_target_size_depth_and_mask ::
  "config \<Rightarrow> world \<Rightarrow> string \<Rightarrow> string \<Rightarrow> (int \<times> int \<times> int \<times> int) option
   \<Rightarrow> error + (depth_result \<times> world)" where
  "load_target_size_depth_and_mask cfg w scan_id frame_id crop =
     (case get_full_res_depth_filepath cfg w scan_id frame_id of
        None \<Rightarrow> Inr (missing_depth cfg, w)
      | Some depth_filepath \<Rightarrow>
          (case load_depth w depth_filepath of
             None \<Rightarrow> (if crop \<noteq> None then Inl TypeError else Inl CvError)
           | Some depth0 \<Rightarrow>
               let depth1 = (case crop of Some c \<Rightarrow> crop_image depth0 c | None \<Rightarrow> depth0)
               in (case cv2_resize_nearest depth1 (depth_width cfg) (depth_height cfg) of
                     Inl e \<Rightarrow> Inl e
                   | Inr depth \<Rightarrow>
                       let mask_b = map2d (\<lambda>x. fgt x (Fin 0)) depth;
                           depth_m = map2d (\<lambda>x. fdiv_pos x 100) depth;
                           w1 = (if \<not> list_ex id (concat mask_b) then print ''0'' w else w)
                       in Inr (([nan_where_invalid depth_m mask_b],
                                [map2d float_of_bool mask_b],
                                [mask_b]), w1))))"

section \<open>Notions used to state the properties\<close>

text \<open>
  The test of lines 201 to 205, on the 16 numbers of a frame's \<^verbatim>\<open>transform_matrix\<close>: their
  sum is not-a-number or an infinity.
\<close>

definition bad_transform :: "fval list \<Rightarrow> bool" where
  "bad_transform xs = (np_isnan (np_sum xs) \<or> np_isinf (np_sum xs) \<or> np_isneginf (np_sum xs))"

text \<open>
  The records as the specification words them: one record per valid frame, with a counter
  that goes up by one on each invalid frame and back to zero on each valid frame. The
  input pairs each frame id with whether the frame is invalid.
\<close>

fun gap_records :: "string \<Rightarrow> nat \<Rightarrow> (string \<times> bool) list \<Rightarrow> string list" where
  "gap_records scan g [] = []"
| "gap_records scan g ((k, invalid) # rest) =
     (if invalid then gap_records scan (g + 1) rest
      else frame_line scan k g # gap_records scan 0 rest)"

text \<open>
  The metadata a call sees for a scan: the cached entry, or else what the scan's
  \<^verbatim>\<open>scene_meta.json\<close> holds.
\<close>

definition scene_capture :: "config \<Rightarrow> world \<Rightarrow> string \<Rightarrow> capture option" where
  "scene_capture cfg w scan_id =
     (case capture_metadata w scan_id of
        Some cap \<Rightarrow> Some cap
      | None \<Rightarrow>
          map_option capture_of
            (meta_files w (os_path_join (dataset_path cfg)
               [get_sub_folder_dir cfg (split cfg), scan_id, ''scene_meta.json''])))"

text \<open>
  \<^verbatim>\<open>load_pose\<close> returns on a frame when its transform has 16 numbers and the inverse
  routine does not raise on it.
\<close>

definition pose_resolves :: "inv_routine \<Rightarrow> fval list \<Rightarrow> bool" where
  "pose_resolves linalg_inv xs =
     (case view44 xs of Inl e \<Rightarrow> False
      | Inr M \<Rightarrow> (case linalg_inv M of Inl e \<Rightarrow> False | Inr C \<Rightarrow> True))"

section \<open>A reference inverse routine and example data\<close>

text \<open>
  A routine to run the functions with: the exact inverse (by cofactors) of a matrix of
  finite entries, \<^verbatim>\<open>LinAlgError\<close> when the determinant is 0 or the matrix is not 4 by 4, and
  all not-a-number when an entry is not finite.
\<close>

definition del_at :: "nat \<Rightarrow> 'a list \<Rightarrow> 'a list" where
  "del_at i xs = take i xs @ drop (Suc i) xs"

function det :: "real list list \<Rightarrow> real" where
  "det [] = 1"
| "det (r # rows) = (\<Sum>j\<leftarrow>[0..<length r]. (- 1) ^ j * (r ! j) * det (map (del_at j) rows))"
  by pat_completeness auto
termination
  by (relation "measure length") auto

fun real_of :: "fval \<Rightarrow> real" where
  "real_of (Fin x) = x"
| "real_of _ = 0"

definition minor :: "real list list \<Rightarrow> nat \<Rightarrow> nat \<Rightarrow> real list list" where
  "minor A i j = map (del_at j) (del_at i A)"

definition exact_inv :: "mat \<Rightarrow> error + mat" where
  "exact_inv M =
     (if \<not> (length M = 4 \<and> list_all (\<lambda>r. length r = 4) M) then Inl LinAlgError
      else if \<not> list_all (list_all is_finite) M then Inr (replicate 4 (replicate 4 NaN))
      else
        let A = map (map real_of) M; d = det A
        in if d = 0 then Inl LinAlgError
           else Inr (map (\<lambda>i. map (\<lambda>j. Fin ((- 1) ^ (i + j) * det (minor A j i) / d)) [0..<4]) [0..<4]))"

definition eye4 :: mat where
  "eye4 = [[Fin 1, Fin 0, Fin 0, Fin 0], [Fin 0, Fin 1, Fin 0, Fin 0],
           [Fin 0, Fin 0, Fin 1, Fin 0], [Fin 0, Fin 0, Fin 0, Fin 1]]"

text \<open>A dataset with two scenes: \<open>s\<close> with four frames, \<open>z\<close> with one all-zero pose.\<close>

definition mk_frame :: "string \<Rightarrow> fval list \<Rightarrow> frame" where
  "mk_frame p xs =
     \<lparr>file_path = p, transform_matrix = xs, f_w = None, f_h = None, f_cx = None, f_cy = None,
      f_fl_x = None, f_fl_y = None\<rparr>"

definition ex_cfg :: config where
  "ex_cfg =
     \<lparr>dataset_path = ''/data'', split = ''train'', get_sub_folder_dir = (\<lambda>s. s),
      depth_mode = ''rendered_depth'', depth_height = 2, depth_width = 3,
      matching_height = 4, matching_width = 6, rotate_images = False,
      include_full_depth_K = False, prediction_num_scales = 2\<rparr>"

definition eye16 :: "fval list" where
  "eye16 = [Fin 1, Fin 0, Fin 0, Fin 0, Fin 0, Fin 1, Fin 0, Fin 0,
            Fin 0, Fin 0, Fin 1, Fin 0, Fin 0, Fin 0, Fin 0, Fin 1]"

definition nan16 :: "fval list" where
  "nan16 = [NaN, Fin 0, Fin 0, Fin 0, Fin 0, Fin 1, Fin 0, Fin 0,
            Fin 0, Fin 0, Fin 1, Fin 0, Fin 0, Fin 0, Fin 0, Fin 1]"

definition inf16 :: "fval list" where
  "inf16 = [Fin 1, Fin 0, Fin 0, NInf, Fin 0, Fin 1, Fin 0, Fin 0,
            Fin 0, Fin 0, Fin 1, Fin 0, Fin 0, Fin 0, Fin 0, Fin 1]"

definition zero16 :: "fval list" where
  "zero16 = replicate 16 (Fin 0)"

definition mk_scene :: "frame list \<Rightarrow> scene_meta" where
  "mk_scene fs =
     \<lparr>s_w = Some (Fin 12), s_h = Some (Fin 8), s_cx = Some (Fin 5), s_cy = Some (Fin 2),
      s_fl_x = Some (Fin 10), s_fl_y = Some (Fin 20), s_frames = fs\<rparr>"

definition ex_scene :: scene_meta where
  "ex_scene = mk_scene [mk_frame ''a.png'' eye16, mk_frame ''b.png'' nan16,
                        mk_frame ''c.png'' inf16, mk_frame ''d.png'' eye16]"

definition zero_scene :: scene_meta where
  "zero_scene = mk_scene [mk_frame ''a.png'' zero16]"

definition ex_world :: world where
  "ex_world =
     \<lparr>text_files = Map.empty,
      meta_files = [''/data/train/s/scene_meta.json'' \<mapsto> ex_scene,
                    ''/data/train/z/scene_meta.json'' \<mapsto> zero_scene],
      image_files = Map.empty,
      write_error = (\<lambda>p. None), mkdir_error = (\<lambda>p. None), made_dirs = [],
      capture_metadata = Map.empty, stdout = []\<rparr>"




definition stale_cache :: string where
  "stale_cache = ''s old.png 7'' @ [CHR 0x0A]"

definition cache_world :: world where
  "cache_world = ex_world\<lparr>text_files := [''/data/valid_frames/train/s/valid_frames.txt'' \<mapsto> stale_cache]\<rparr>"

definition ro_world :: world where
  "ro_world = ex_world\<lparr>write_error := (\<lambda>p. Some OSError)\<rparr>"

text \<open>A dataset with depth files, and the shape of a rectangular array.\<close>

definition depth_world :: world where
  "depth_world = ex_world\<lparr>image_files :=
     [''/data/street_1/rendered_depth/a.exr'' \<mapsto> Decoded [[Fin 10, Fin 20, Fin 70000, Fin 30]],
      ''/data/room/rendered_depth/a.exr'' \<mapsto> Decoded [[Fin 10, Fin 20, Fin 70000, Fin 30]],
      ''/data/street_1/rendered_depth/far.exr'' \<mapsto> Decoded [[Fin 70000, PInf]],
      ''/data/street_1/rendered_depth/t.exr'' \<mapsto>
          Decoded [[Fin 0, Fin 100, Fin 200, Fin 300], [Fin 400, Fin 500, Fin (- 1), NaN]],
      ''/data/room/rendered_depth/bad.exr'' \<mapsto> Raises,
      ''/data/room/rendered_depth/none.exr'' \<mapsto> ReturnsNone]\<rparr>"



definition rot_cfg :: config where
  "rot_cfg = ex_cfg\<lparr>rotate_images := True, include_full_depth_K := True\<rparr>"

definition ex_K_depth :: mat where
  "ex_K_depth = [[Fin (5 / 2), Fin 0, Fin (5 / 4), Fin 0], [Fin 0, Fin 5, Fin (1 / 2), Fin 0],
                 [Fin 0, Fin 0, Fin 1, Fin 0], [Fin 0, Fin 0, Fin 0, Fin 1]]"

definition ex_invK_depth :: mat where
  "ex_invK_depth = [[Fin (2 / 5), Fin 0, Fin (- (1 / 2)), Fin 0],
                    [Fin 0, Fin (1 / 5), Fin (- (1 / 10)), Fin 0],
                    [Fin 0, Fin 0, Fin 1, Fin 0], [Fin 0, Fin 0, Fin 0, Fin 1]]"

definition ex_K_s1 :: mat where
  "ex_K_s1 = [[Fin (5 / 4), Fin 0, Fin (5 / 8), Fin 0], [Fin 0, Fin (5 / 2), Fin (1 / 4), Fin 0],
              [Fin 0, Fin 0, Fin 1, Fin 0], [Fin 0, Fin 0, Fin 0, Fin 1]]"

definition ex_invK_s1 :: mat where
  "ex_invK_s1 = [[Fin (4 / 5), Fin 0, Fin (- (1 / 2)), Fin 0],
                 [Fin 0, Fin (2 / 5), Fin (- (1 / 10)), Fin 0],
                 [Fin 0, Fin 0, Fin 1, Fin 0], [Fin 0, Fin 0, Fin 0, Fin 1]]"

definition ex_intrinsics :: "(string \<times> mat) list" where
  "ex_intrinsics =
     [(''K_matching_b44'',
       [[Fin 5, Fin 0, Fin (5 / 2), Fin 0], [Fin 0, Fin 10, Fin 1, Fin 0],
        [Fin 0, Fin 0, Fin 1, Fin 0], [Fin 0, Fin 0, Fin 0, Fin 1]]),
      (''invK_matching_b44'',
       [[Fin (1 / 5), Fin 0, Fin (- (1 / 2)), Fin 0], [Fin 0, Fin (1 / 10), Fin (- (1 / 10)), Fin 0],
        [Fin 0, Fin 0, Fin 1, Fin 0], [Fin 0, Fin 0, Fin 0, Fin 1]]),
      (''K_s0_b44'', ex_K_depth), (''invK_s0_b44'', ex_invK_depth),
      (''K_s1_b44'', ex_K_s1), (''invK_s1_b44'', ex_invK_s1)]"

definition rot_intrinsics :: "(string \<times> mat) list" where
  "rot_intrinsics =
     [(''K_matching_b44'',
       [[Fin 10, Fin 0, Fin 3, Fin 0], [Fin 0, Fin 5, Fin (5 / 2), Fin 0],
        [Fin 0, Fin 0, Fin 1, Fin 0], [Fin 0, Fin 0, Fin 0, Fin 1]]),
      (''invK_matching_b44'',
       [[Fin (1 / 10), Fin 0, Fin (- (3 / 10)), Fin 0], [Fin 0, Fin (1 / 5), Fin (- (1 / 2)), Fin 0],
        [Fin 0, Fin 0, Fin 1, Fin 0], [Fin 0, Fin 0, Fin 0, Fin 1]]),
      (''K_full_depth_b44'', ex_K_depth), (''invK_full_depth_b44'', ex_invK_depth),
      (''K_s0_b44'', ex_K_depth), (''invK_s0_b44'', ex_invK_depth),
      (''K_s1_b44'', ex_K_s1), (''invK_s1_b44'', ex_invK_s1)]"

section \<open>Properties\<close>

subsection \<open>Auxiliary facts\<close>

lemma view44_entries: "view44 xs = Inr M \<Longrightarrow> mat_entries M = xs"
proof -
  assume a: "view44 xs = Inr M"
  then have len: "length xs = 16" by (auto simp: view44_def split: if_splits)
  from a len have M: "M = [take 4 xs, take 4 (drop 4 xs), take 4 (drop 8 xs), take 4 (drop 12 xs)]"
    by (auto simp: view44_def)
  have e3: "take 4 (drop 12 xs) = drop 12 xs" using len by simp
  have e2: "take 4 (drop 8 xs) @ drop 12 xs = drop 8 xs"
    using append_take_drop_id [of 4 "drop 8 xs"] by simp
  have e1: "take 4 (drop 4 xs) @ drop 8 xs = drop 4 xs"
    using append_take_drop_id [of 4 "drop 4 xs"] by simp
  have e0: "take 4 xs @ drop 4 xs = xs" by simp
  have "take 4 xs @ take 4 (drop 4 xs) @ take 4 (drop 8 xs) @ take 4 (drop 12 xs) = xs"
    using e0 e1 e2 e3 by (metis append.assoc)
  then show ?thesis by (simp add: M mat_entries_def)
qed

lemma load_capture_metadata_cached:
  "capture_metadata w scan = Some cap \<Longrightarrow> load_capture_metadata cfg w scan = Inr w"
  by (simp add: load_capture_metadata_def)

lemma load_pose_cached:
  assumes "capture_metadata w scan = Some cap"
    and "dict_get (c_frames cap) k = Some f"
    and "view44 (transform_matrix f) = Inr M"
    and "linalg_inv M = Inr C"
  shows "load_pose linalg_inv cfg w scan k = Inr ((M, C), w)"
  using assms by (simp add: load_pose_def load_capture_metadata_cached)


lemma map_of_distinct_entry:
  "distinct (map fst d) \<Longrightarrow> (k, f) \<in> set d \<Longrightarrow> map_of d k = Some f"
  by simp

lemma valid_frames_loop_records:
  assumes cap: "capture_metadata w scan = Some cap"
    and res: "\<forall>k\<in>set ks. \<exists>f. dict_get (c_frames cap) k = Some f
                \<and> pose_resolves linalg_inv (transform_matrix f)"
  shows "\<exists>g b. valid_frames_loop linalg_inv cfg scan ks w (vf, g0, b0) =
           Inr ((vf @ gap_records scan g0
                   (map (\<lambda>k. (k, bad_transform (transform_matrix (the (dict_get (c_frames cap) k))))) ks),
                 g, b), w)"
  using res
proof (induction ks arbitrary: vf g0 b0)
  case Nil
  then show ?case by simp
next
  case (Cons k ks)
  from Cons.prems obtain f where f: "dict_get (c_frames cap) k = Some f"
    and pr: "pose_resolves linalg_inv (transform_matrix f)" by auto
  from pr obtain M C where M: "view44 (transform_matrix f) = Inr M" and C: "linalg_inv M = Inr C"
    by (auto simp: pose_resolves_def split: sum.splits)
  have lp: "load_pose linalg_inv cfg w scan k = Inr ((M, C), w)"
    using cap f M C by (rule load_pose_cached)
  have bp: "bad_pose M = bad_transform (transform_matrix f)"
    by (simp add: bad_pose_def bad_transform_def view44_entries [OF M])
  from Cons.prems have rest: "\<forall>k\<in>set ks. \<exists>f. dict_get (c_frames cap) k = Some f
                \<and> pose_resolves linalg_inv (transform_matrix f)" by simp
  show ?case
  proof (cases "bad_transform (transform_matrix f)")
    case True
    from Cons.IH [OF rest, of vf "g0 + 1" "b0 + 1"] show ?thesis
      by (simp add: lp bp True f)
  next
    case False
    from Cons.IH [OF rest, of "vf @ [frame_line scan k g0]" 0 b0] show ?thesis
      by (simp add: lp bp False f)
  qed
qed

lemma keyed_flags:
  assumes "distinct (map fst d)"
  shows "map (\<lambda>k. (k, P (the (map_of d k)))) (map fst d) = map (\<lambda>(k, f). (k, P f)) d"
  using assms by (induction d) (auto simp: rev_image_eqI)

lemma exact_inv_eye4: "exact_inv eye4 = Inr eye4"
  by code_simp




lemma load_capture_metadata_scene:
  assumes "scene_capture cfg w scan = Some cap"
  shows "\<exists>w'. load_capture_metadata cfg w scan = Inr w' \<and> capture_metadata w' scan = Some cap
           \<and> text_files w' = text_files w \<and> write_error w' = write_error w"
  using assms
  by (auto simp: scene_capture_def load_capture_metadata_def Let_def split: option.splits)

lemma scene_capture_print [simp]: "scene_capture cfg (print s w) scan = scene_capture cfg w scan"
  by (simp add: scene_capture_def print_def split: option.splits)

lemma compute_valid_frames_records:
  assumes cap: "scene_capture cfg w scan = Some cap"
    and keys: "distinct (dict_keys (c_frames cap))"
    and res: "\<forall>(k, f)\<in>set (c_frames cap). pose_resolves linalg_inv (transform_matrix f)"
  shows "\<exists>w'. compute_valid_frames linalg_inv cfg w scan path store_computed =
           Inr (gap_records scan 0
                  (map (\<lambda>(k, f). (k, bad_transform (transform_matrix f))) (c_frames cap)), w')"
proof -
  let ?w1 = "print (computing_line scan) w"
  from cap have "scene_capture cfg ?w1 scan = Some cap" by simp
  from load_capture_metadata_scene [OF this] obtain w2 where
    w2: "load_capture_metadata cfg ?w1 scan = Inr w2" and c2: "capture_metadata w2 scan = Some cap"
    by blast
  have dk: "distinct (map fst (c_frames cap))" using keys by (simp add: dict_keys_def)
  have "\<forall>k\<in>set (dict_keys (c_frames cap)). \<exists>f. dict_get (c_frames cap) k = Some f
          \<and> pose_resolves linalg_inv (transform_matrix f)"
  proof
    fix k assume "k \<in> set (dict_keys (c_frames cap))"
    then obtain f where kf: "(k, f) \<in> set (c_frames cap)" by (auto simp: dict_keys_def)
    with dk have "map_of (c_frames cap) k = Some f" by simp
    moreover from kf res have "pose_resolves linalg_inv (transform_matrix f)" by auto
    ultimately show "\<exists>f. dict_get (c_frames cap) k = Some f
          \<and> pose_resolves linalg_inv (transform_matrix f)" by (simp add: dict_get_def)
  qed
  from valid_frames_loop_records [OF c2 this, of cfg "[]" 0 0]
  obtain g b where loop: "valid_frames_loop linalg_inv cfg scan (dict_keys (c_frames cap)) w2 ([], 0, 0) =
      Inr ((gap_records scan 0
              (map (\<lambda>k. (k, bad_transform (transform_matrix (the (dict_get (c_frames cap) k)))))
                 (dict_keys (c_frames cap))), g, b), w2)"
    by auto
  have fl: "map (\<lambda>k. (k, bad_transform (transform_matrix (the (dict_get (c_frames cap) k)))))
                 (dict_keys (c_frames cap))
            = map (\<lambda>(k, f). (k, bad_transform (transform_matrix f))) (c_frames cap)"
    using keyed_flags [OF dk, of "\<lambda>f. bad_transform (transform_matrix f)"]
    by (simp add: dict_keys_def dict_get_def)
  show ?thesis
    unfolding compute_valid_frames_def Let_def w2 sum.case c2 option.case loop prod.case fl
    by blast
qed


lemma ex_scene_capture: "scene_capture ex_cfg ex_world ''s'' = Some (capture_of ex_scene)"
  by (simp add: scene_capture_def ex_cfg_def ex_world_def os_path_join_def path_join2_def)

lemma ex_frames: "c_frames (capture_of ex_scene) =
   [(''a.png'', mk_frame ''a.png'' eye16), (''b.png'', mk_frame ''b.png'' nan16),
    (''c.png'', mk_frame ''c.png'' inf16), (''d.png'', mk_frame ''d.png'' eye16)]"
  by (simp add: capture_of_def ex_scene_def mk_scene_def frame_dict_def mk_frame_def)

lemma view44_eye16: "view44 eye16 = Inr eye4"
  by (simp add: view44_def eye16_def eye4_def)

lemma exact_inv_nonfinite:
  "length M = 4 \<Longrightarrow> list_all (\<lambda>r. length r = 4) M \<Longrightarrow> \<not> list_all (list_all is_finite) M \<Longrightarrow>
   exact_inv M = Inr (replicate 4 (replicate 4 NaN))"
  by (simp add: exact_inv_def)

lemma ex_resolves_eye: "pose_resolves exact_inv eye16"
  by (simp add: pose_resolves_def view44_eye16 exact_inv_eye4)

lemma ex_resolves_nan: "pose_resolves exact_inv nan16"
  by (simp add: pose_resolves_def view44_def nan16_def exact_inv_nonfinite)

lemma ex_resolves_inf: "pose_resolves exact_inv inf16"
  by (simp add: pose_resolves_def view44_def inf16_def exact_inv_nonfinite)

lemma ex_bad:
  "\<not> bad_transform eye16" "bad_transform nan16" "bad_transform inf16" "\<not> bad_transform zero16"
  by (simp_all add: bad_transform_def np_sum_def eye16_def nan16_def inf16_def zero16_def
        numeral_eq_Suc)

lemma zero_scene_capture: "scene_capture ex_cfg ex_world ''z'' = Some (capture_of zero_scene)"
  by (simp add: scene_capture_def ex_cfg_def ex_world_def os_path_join_def path_join2_def)

subsection \<open>Valid frames\<close>




subsection \<open>Poses\<close>





subsection \<open>The cache of valid frames\<close>

lemma path_join2_nonempty: "b \<noteq> [] \<Longrightarrow> path_join2 p b \<noteq> []"
  by (simp add: path_join2_def)

lemma get_valid_frame_path_result:
  assumes "get_valid_frame_path cfg w split' scan = Inr (p, w1)"
  shows "p \<noteq> [] \<and> w1 = w\<lparr>made_dirs := made_dirs w @
            [os_path_join (dataset_path cfg) [''valid_frames'', get_sub_folder_dir cfg split', scan]]\<rparr>"
  using assms
  by (auto simp: get_valid_frame_path_def Let_def os_path_join_def path_join2_nonempty
           split: option.splits)

lemma load_capture_metadata_frame:
  "load_capture_metadata cfg w scan = Inr w' \<Longrightarrow>
   text_files w' = text_files w \<and> write_error w' = write_error w"
  by (auto simp: load_capture_metadata_def Let_def split: if_splits option.splits)

lemma load_pose_frame:
  "load_pose linalg_inv cfg w scan k = Inr (r, w') \<Longrightarrow>
   text_files w' = text_files w \<and> write_error w' = write_error w"
  by (auto simp: load_pose_def Let_def split: sum.splits option.splits
           dest: load_capture_metadata_frame)

lemma valid_frames_loop_frame:
  "valid_frames_loop linalg_inv cfg scan ks w acc = Inr (r, w') \<Longrightarrow>
   text_files w' = text_files w \<and> write_error w' = write_error w"
proof (induction linalg_inv cfg scan ks w acc arbitrary: r w' rule: valid_frames_loop.induct)
  case (1 linalg_inv cfg scan w acc)
  then show ?case by simp
next
  case (2 linalg_inv cfg scan frame_ind rest w valid_frames gap bad_count)
  from "2.prems" obtain M C w1 where
    lp: "load_pose linalg_inv cfg w scan frame_ind = Inr ((M, C), w1)"
    by (auto split: sum.splits)
  from load_pose_frame [OF lp] have fr: "text_files w1 = text_files w \<and> write_error w1 = write_error w" .
  show ?case
  proof (cases "bad_pose M")
    case True
    with "2.prems" lp have
      "valid_frames_loop linalg_inv cfg scan rest w1 (valid_frames, gap + 1, bad_count + 1) = Inr (r, w')"
      by simp
    from "2.IH"(1) [OF lp refl refl True this] fr show ?thesis by simp
  next
    case False
    with "2.prems" lp have
      "valid_frames_loop linalg_inv cfg scan rest w1
         (valid_frames @ [frame_line scan frame_ind gap], 0, bad_count) = Inr (r, w')"
      by simp
    from "2.IH"(2) [OF lp refl refl False this] fr show ?thesis by simp
  qed
qed

lemma compute_valid_frames_frame:
  assumes "compute_valid_frames linalg_inv cfg w scan p False = Inr (recs, w2)"
  shows "text_files w2 = text_files w \<and> write_error w2 = write_error w"
  using assms unfolding compute_valid_frames_def Let_def
  by (auto split: sum.splits option.splits simp: print_def
           dest!: load_capture_metadata_frame valid_frames_loop_frame)

lemma compute_valid_frames_store:
  assumes "compute_valid_frames linalg_inv cfg w scan p False = Inr (recs, w2)"
  shows "compute_valid_frames linalg_inv cfg w scan p True = Inr (recs, store_valid_frames w2 p recs)"
  using assms unfolding compute_valid_frames_def Let_def
  by (auto split: sum.splits option.splits)

text \<open>
  Claim C8, as the code has it. The cache is looked for only when \<open>store_computed\<close> is set
  (lines 177 to 180). With \<open>store_computed\<close> set and a cache file at the path of
  \<^verbatim>\<open>get_valid_frame_path\<close>, the file's lines are returned as they are, and the call
  neither loads metadata nor prints. With \<open>store_computed\<close> unset the call looks at the
  empty path, which never exists, and always computes. When the call computes with
  \<open>store_computed\<close> set and writing the cache file fails, the failure is printed and the
  computed list is returned as it is.
\<close>

theorem valid_frames_cache_gate:
  "(\<forall>p w1 txt.
      get_valid_frame_path cfg w split' (rstrip_nl scan0) = Inr (p, w1) \<and> text_files w p = Some txt \<longrightarrow>
        get_valid_frame_ids linalg_inv cfg w split' scan0 True = Inr (readlines txt, w1)
        \<and> capture_metadata w1 = capture_metadata w \<and> stdout w1 = stdout w
        \<and> text_files w1 = text_files w)
   \<and> get_valid_frame_ids linalg_inv cfg w split' scan0 False =
       compute_valid_frames linalg_inv cfg w (rstrip_nl scan0) [] False
   \<and> (\<forall>p w1 e recs w2.
        get_valid_frame_path cfg w split' (rstrip_nl scan0) = Inr (p, w1) \<and> text_files w p = None
        \<and> write_error w p = Some e
        \<and> compute_valid_frames linalg_inv cfg w1 (rstrip_nl scan0) p False = Inr (recs, w2) \<longrightarrow>
          get_valid_frame_ids linalg_inv cfg w split' scan0 True =
            Inr (recs, print_exc e (print (save_failed_line p) w2))
          \<and> text_files (print_exc e (print (save_failed_line p) w2)) = text_files w)"
proof (intro conjI allI impI)
  fix p w1 content
  assume a: "get_valid_frame_path cfg w split' (rstrip_nl scan0) = Inr (p, w1) \<and> text_files w p = Some content"
  from get_valid_frame_path_result [of cfg w split' "rstrip_nl scan0" p w1] a
  have p: "p \<noteq> []" and w1: "w1 = w\<lparr>made_dirs := made_dirs w @
            [os_path_join (dataset_path cfg) [''valid_frames'', get_sub_folder_dir cfg split', rstrip_nl scan0]]\<rparr>"
    by auto
  from w1 a have t: "text_files w1 p = Some content" by simp
  show "get_valid_frame_ids linalg_inv cfg w split' scan0 True = Inr (readlines content, w1)"
    using a p t by (simp add: get_valid_frame_ids_def valid_frame_target_def Let_def os_path_exists_def)
  show "capture_metadata w1 = capture_metadata w" using w1 by simp
  show "stdout w1 = stdout w" using w1 by simp
  show "text_files w1 = text_files w" using w1 by simp
next
  show "get_valid_frame_ids linalg_inv cfg w split' scan0 False =
       compute_valid_frames linalg_inv cfg w (rstrip_nl scan0) [] False"
    by (simp add: get_valid_frame_ids_def valid_frame_target_def Let_def os_path_exists_def)
next
  fix p w1 e recs w2
  assume a: "get_valid_frame_path cfg w split' (rstrip_nl scan0) = Inr (p, w1) \<and> text_files w p = None
        \<and> write_error w p = Some e
        \<and> compute_valid_frames linalg_inv cfg w1 (rstrip_nl scan0) p False = Inr (recs, w2)"
  from get_valid_frame_path_result [of cfg w split' "rstrip_nl scan0" p w1] a
  have w1: "w1 = w\<lparr>made_dirs := made_dirs w @
            [os_path_join (dataset_path cfg) [''valid_frames'', get_sub_folder_dir cfg split', rstrip_nl scan0]]\<rparr>"
    by auto
  from a have c: "compute_valid_frames linalg_inv cfg w1 (rstrip_nl scan0) p False = Inr (recs, w2)"
    by simp
  from compute_valid_frames_frame [OF c] w1 a
  have fr: "text_files w2 = text_files w" "write_error w2 p = Some e" by simp_all
  have st: "store_valid_frames w2 p recs = print_exc e (print (save_failed_line p) w2)"
    using fr by (simp add: store_valid_frames_def)
  have ne: "\<not> os_path_exists w1 p" using w1 a by (simp add: os_path_exists_def)
  show "get_valid_frame_ids linalg_inv cfg w split' scan0 True =
            Inr (recs, print_exc e (print (save_failed_line p) w2))"
    using a ne compute_valid_frames_store [OF c]
    by (simp add: get_valid_frame_ids_def valid_frame_target_def Let_def st)
  show "text_files (print_exc e (print (save_failed_line p) w2)) = text_files w"
    using fr by (simp add: print_exc_def print_def)
qed

lemma ex_compute:
  assumes c: "capture_metadata w = Map.empty" and m: "meta_files w = meta_files ex_world"
  shows "\<exists>w'. compute_valid_frames exact_inv ex_cfg w ''s'' p st = Inr ([''s a.png 0'', ''s d.png 2''], w')"
proof -
  have "scene_capture ex_cfg w ''s'' = scene_capture ex_cfg ex_world ''s''"
    by (simp add: scene_capture_def c m ex_world_def)
  then have cap: "scene_capture ex_cfg w ''s'' = Some (capture_of ex_scene)"
    by (simp add: ex_scene_capture)
  have keys: "distinct (dict_keys (c_frames (capture_of ex_scene)))"
    by (simp add: ex_frames dict_keys_def)
  have res: "\<forall>(k, f)\<in>set (c_frames (capture_of ex_scene)). pose_resolves exact_inv (transform_matrix f)"
    by (simp add: ex_frames mk_frame_def ex_resolves_eye ex_resolves_nan ex_resolves_inf)
  have recs: "gap_records ''s'' 0
       (map (\<lambda>(k, f). (k, bad_transform (transform_matrix f))) (c_frames (capture_of ex_scene)))
       = [''s a.png 0'', ''s d.png 2'']"
    by (simp add: ex_frames mk_frame_def ex_bad frame_line_def str_nat.simps digit_char_def)
  from compute_valid_frames_records [OF cap keys res, of p st] recs show ?thesis by simp
qed

lemma ex_valid_frame_path:
  "mkdir_error w = (\<lambda>p. None) \<Longrightarrow>
   get_valid_frame_path ex_cfg w ''train'' ''s'' =
     Inr (''/data/valid_frames/train/s/valid_frames.txt'',
          w\<lparr>made_dirs := made_dirs w @ [''/data/valid_frames/train/s'']\<rparr>)"
  by (simp add: get_valid_frame_path_def ex_cfg_def os_path_join_def path_join2_def)

lemma ex_rstrip_s: "rstrip_nl ''s'' = ''s''"
  by (simp add: rstrip_nl_def newline_def)

text \<open>
  The theorem at a dataset with a cache file for scene \<open>s\<close>, and at one where no file can
  be written.
\<close>

theorem valid_frames_cache_gate_witness:
  "get_valid_frame_ids exact_inv ex_cfg cache_world ''train'' ''s'' True =
     Inr ([stale_cache], cache_world\<lparr>made_dirs := [''/data/valid_frames/train/s'']\<rparr>)
   \<and> (\<exists>w'. get_valid_frame_ids exact_inv ex_cfg cache_world ''train'' ''s'' False =
          Inr ([''s a.png 0'', ''s d.png 2''], w'))
   \<and> (\<exists>w2. get_valid_frame_ids exact_inv ex_cfg ro_world ''train'' ''s'' True =
          Inr ([''s a.png 0'', ''s d.png 2''],
               print_exc OSError
                 (print (save_failed_line ''/data/valid_frames/train/s/valid_frames.txt'') w2)))"
proof -
  let ?p = "''/data/valid_frames/train/s/valid_frames.txt''"
  let ?w1 = "cache_world\<lparr>made_dirs := [''/data/valid_frames/train/s'']\<rparr>"
  have gp: "get_valid_frame_path ex_cfg cache_world ''train'' (rstrip_nl ''s'') = Inr (?p, ?w1)"
    using ex_valid_frame_path [of cache_world]
    by (simp add: ex_rstrip_s cache_world_def ex_world_def)
  have tf: "text_files cache_world ?p = Some stale_cache"
    by (simp add: cache_world_def)
  have rl: "readlines stale_cache = [stale_cache]"
    by (simp add: readlines_def stale_cache_def newline_def)
  from valid_frames_cache_gate [of ex_cfg cache_world "''train''" "''s''" exact_inv] gp tf rl
  have a: "get_valid_frame_ids exact_inv ex_cfg cache_world ''train'' ''s'' True = Inr ([stale_cache], ?w1)"
    by simp
  from ex_compute [of cache_world "[]" False] obtain w' where
    "compute_valid_frames exact_inv ex_cfg cache_world ''s'' [] False = Inr ([''s a.png 0'', ''s d.png 2''], w')"
    by (auto simp: cache_world_def ex_world_def)
  with valid_frames_cache_gate [of ex_cfg cache_world "''train''" "''s''" exact_inv]
  have b: "\<exists>w'. get_valid_frame_ids exact_inv ex_cfg cache_world ''train'' ''s'' False =
          Inr ([''s a.png 0'', ''s d.png 2''], w')"
    by (simp add: ex_rstrip_s)
  let ?r1 = "ro_world\<lparr>made_dirs := [''/data/valid_frames/train/s'']\<rparr>"
  have gp2: "get_valid_frame_path ex_cfg ro_world ''train'' (rstrip_nl ''s'') = Inr (?p, ?r1)"
    using ex_valid_frame_path [of ro_world]
    by (simp add: ex_rstrip_s ro_world_def ex_world_def)
  have tf2: "text_files ro_world ?p = None" by (simp add: ro_world_def ex_world_def)
  have we: "write_error ro_world ?p = Some OSError" by (simp add: ro_world_def)
  from ex_compute [of ?r1 ?p False] obtain w2 where
    c2: "compute_valid_frames exact_inv ex_cfg ?r1 (rstrip_nl ''s'') ?p False = Inr ([''s a.png 0'', ''s d.png 2''], w2)"
    by (auto simp: ro_world_def ex_world_def ex_rstrip_s)
  from valid_frames_cache_gate [of ex_cfg ro_world "''train''" "''s''" exact_inv] gp2 tf2 we c2
  have "get_valid_frame_ids exact_inv ex_cfg ro_world ''train'' ''s'' True =
          Inr ([''s a.png 0'', ''s d.png 2''], print_exc OSError (print (save_failed_line ?p) w2))"
    by blast
  with a b show ?thesis by blast
qed

text \<open>
  The claim as stated (the cache is read whatever \<open>store_computed\<close> is) fails: with a cache
  file at the path of \<^verbatim>\<open>get_valid_frame_path\<close> and \<open>store_computed\<close> unset, the call returns
  the computed records, not the line of the file.
\<close>

theorem valid_frames_cache_ignored_counterexample:
  "(\<exists>w1. get_valid_frame_path ex_cfg cache_world ''train'' ''s'' =
            Inr (''/data/valid_frames/train/s/valid_frames.txt'', w1))
   \<and> text_files cache_world ''/data/valid_frames/train/s/valid_frames.txt'' = Some stale_cache
   \<and> readlines stale_cache = [''s old.png 7'' @ [CHR 0x0A]]
   \<and> (\<exists>w'. get_valid_frame_ids exact_inv ex_cfg cache_world ''train'' ''s'' False =
          Inr ([''s a.png 0'', ''s d.png 2''], w'))"
proof -
  have gp: "\<exists>w1. get_valid_frame_path ex_cfg cache_world ''train'' ''s'' =
            Inr (''/data/valid_frames/train/s/valid_frames.txt'', w1)"
    using ex_valid_frame_path [of cache_world] by (simp add: cache_world_def ex_world_def)
  have tf: "text_files cache_world ''/data/valid_frames/train/s/valid_frames.txt'' = Some stale_cache"
    by (simp add: cache_world_def)
  have rl: "readlines stale_cache = [''s old.png 7'' @ [CHR 0x0A]]"
    by (simp add: readlines_def stale_cache_def newline_def)
  have eq: "get_valid_frame_ids exact_inv ex_cfg cache_world ''train'' ''s'' False =
       compute_valid_frames exact_inv ex_cfg cache_world ''s'' [] False"
    by (simp add: get_valid_frame_ids_def valid_frame_target_def Let_def os_path_exists_def ex_rstrip_s)
  from ex_compute [of cache_world "[]" False] obtain w' where
    "compute_valid_frames exact_inv ex_cfg cache_world ''s'' [] False = Inr ([''s a.png 0'', ''s d.png 2''], w')"
    by (auto simp: cache_world_def ex_world_def)
  with eq gp tf rl show ?thesis by simp
qed

subsection \<open>Depth maps\<close>

lemma ex_depth_file_names:
  "depth_file_name ''a.png'' = ''a.exr''" "depth_file_name ''images/far.png'' = ''far.exr''"
  "depth_file_name ''bad.png'' = ''bad.exr''" "depth_file_name ''none.png'' = ''none.exr''"
  by (simp_all add: depth_file_name_def split_last_def Let_def)

lemma ex_depth_paths:
  "get_full_res_depth_filepath ex_cfg depth_world ''street_1'' ''a.png'' = Some ''/data/street_1/rendered_depth/a.exr''"
  "get_full_res_depth_filepath ex_cfg depth_world ''room'' ''a.png'' = Some ''/data/room/rendered_depth/a.exr''"
  "get_full_res_depth_filepath ex_cfg depth_world ''street_1'' ''images/far.png'' = Some ''/data/street_1/rendered_depth/far.exr''"
  "get_full_res_depth_filepath ex_cfg depth_world ''room'' ''bad.png'' = Some ''/data/room/rendered_depth/bad.exr''"
  "get_full_res_depth_filepath ex_cfg depth_world ''room'' ''none.png'' = Some ''/data/room/rendered_depth/none.exr''"
  "get_full_res_depth_filepath ex_cfg depth_world ''room'' ''missing.png'' = None"
  "get_full_res_depth_filepath ex_cfg depth_world ''street_1'' ''t.png'' = Some ''/data/street_1/rendered_depth/t.exr''"
  by (simp_all add: get_full_res_depth_filepath_def ex_depth_file_names ex_cfg_def os_path_join_def
        path_join2_def depth_world_def Let_def depth_file_name_def split_last_def)

lemma ex_imread:
  "imread depth_world ''/data/street_1/rendered_depth/a.exr'' = Decoded [[Fin 10, Fin 20, Fin 70000, Fin 30]]"
  "imread depth_world ''/data/room/rendered_depth/a.exr'' = Decoded [[Fin 10, Fin 20, Fin 70000, Fin 30]]"
  "imread depth_world ''/data/street_1/rendered_depth/far.exr'' = Decoded [[Fin 70000, PInf]]"
  "imread depth_world ''/data/room/rendered_depth/bad.exr'' = Raises"
  "imread depth_world ''/data/room/rendered_depth/none.exr'' = ReturnsNone"
  "imread depth_world ''/data/street_1/rendered_depth/t.exr'' =
     Decoded [[Fin 0, Fin 100, Fin 200, Fin 300], [Fin 400, Fin 500, Fin (- 1), NaN]]"
  by (simp_all add: imread_def depth_world_def)

lemma ex_quantile:
  "np_quantile [Fin 10, Fin 20, Fin 30] (95 / 100) = Fin 29"
  "np_quantile [Fin 10, Fin 20, Fin 30] (19 / 20) = Fin 29"
  by (simp_all add: np_quantile_def np_sort_def lerp_def fsub_def Let_def)

lemma ex_street: "str_contains ''street'' ''street_1''" "\<not> str_contains ''street'' ''room''"
  by simp_all

text \<open>
  Claim C4. When \<^verbatim>\<open>get_full_res_depth_filepath\<close> finds no depth file, both loaders return a
  depth tensor of shape (1, configured depth height, configured depth width) that is
  not-a-number everywhere, an all-zero float mask and an all-false boolean mask of that
  shape.
\<close>

theorem missing_depth_file_all_nan:
  assumes "get_full_res_depth_filepath cfg w scan_id frame_id = None"
  shows "load_full_res_depth_and_mask cfg w scan_id frame_id =
           Inr ([replicate (depth_height cfg) (replicate (depth_width cfg) NaN)],
                [replicate (depth_height cfg) (replicate (depth_width cfg) (Fin 0))],
                [replicate (depth_height cfg) (replicate (depth_width cfg) False)])
       \<and> load_target_size_depth_and_mask cfg w scan_id frame_id crop =
           Inr (([replicate (depth_height cfg) (replicate (depth_width cfg) NaN)],
                 [replicate (depth_height cfg) (replicate (depth_width cfg) (Fin 0))],
                 [replicate (depth_height cfg) (replicate (depth_width cfg) False)]), w)"
  using assms
  by (simp add: load_full_res_depth_and_mask_def load_target_size_depth_and_mask_def missing_depth_def)

text \<open>
  The theorem at a frame without a depth file, for a configured depth size of 2 by 3.
\<close>

theorem missing_depth_file_all_nan_witness:
  "load_full_res_depth_and_mask ex_cfg depth_world ''room'' ''missing.png'' =
     Inr ([[[NaN, NaN, NaN], [NaN, NaN, NaN]]],
          [[[Fin 0, Fin 0, Fin 0], [Fin 0, Fin 0, Fin 0]]],
          [[[False, False, False], [False, False, False]]])
   \<and> load_target_size_depth_and_mask ex_cfg depth_world ''room'' ''missing.png'' (Some (0, 0, 1, 1)) =
     Inr (([[[NaN, NaN, NaN], [NaN, NaN, NaN]]],
           [[[Fin 0, Fin 0, Fin 0], [Fin 0, Fin 0, Fin 0]]],
           [[[False, False, False], [False, False, False]]]), depth_world)"
  using missing_depth_file_all_nan [OF ex_depth_paths(6), of "Some (0, 0, 1, 1)"]
  by (simp add: ex_cfg_def numeral_eq_Suc)

text \<open>
  Claim C9 fails on the code. When \<^verbatim>\<open>cv2.imread\<close> raises on the depth file, \<^verbatim>\<open>_load_depth\<close>
  swallows the exception and returns the all-zero placeholder, but
  \<^verbatim>\<open>load_full_res_depth_and_mask\<close> reads the file again at line 485, outside the \<^verbatim>\<open>try\<close>, and
  that exception aborts the call. And when \<^verbatim>\<open>cv2.imread\<close> returns \<^verbatim>\<open>None\<close> for a file it cannot
  decode, nothing is substituted: both loaders raise on the \<^verbatim>\<open>None\<close>.
\<close>

theorem decode_failure_aborts:
  "load_depth depth_world ''/data/room/rendered_depth/bad.exr'' = Some (replicate 1000 (replicate 1000 (Fin 0)))
   \<and> load_full_res_depth_and_mask ex_cfg depth_world ''room'' ''bad.png'' = Inl CvError
   \<and> load_full_res_depth_and_mask ex_cfg depth_world ''room'' ''none.png'' = Inl TypeError
   \<and> load_target_size_depth_and_mask ex_cfg depth_world ''room'' ''none.png'' None = Inl CvError
   \<and> load_target_size_depth_and_mask ex_cfg depth_world ''room'' ''none.png'' (Some (0, 0, 1, 1)) = Inl TypeError"
  by (simp add: load_full_res_depth_and_mask_def load_target_size_depth_and_mask_def ex_depth_paths
        ex_imread load_depth_def)

lemma load_full_res_decoded:
  assumes p: "get_full_res_depth_filepath cfg w scan_id frame_id = Some p"
    and d: "imread w p = Decoded d"
  shows "load_full_res_depth_and_mask cfg w scan_id frame_id =
     (let mask_b = (if str_contains ''street'' scan_id \<and> any_below_65000 d
                    then map2d (\<lambda>x. flt x (np_quantile (values_below_65000 d) (95 / 100))) d
                    else map2d (\<lambda>x. fgt x (Fin 0)) d)
      in Inr ([nan_where_invalid d mask_b], [map2d float_of_bool mask_b], [mask_b]))"
  by (simp add: load_full_res_depth_and_mask_def p d load_depth_def Let_def)

text \<open>
  Claim C2, as the code has it. For a depth file that decodes to the array \<open>d\<close>: when the
  scan id contains \<^verbatim>\<open>street\<close> and some depth is below 65000, a pixel is valid exactly when its
  depth is below the 95th percentile of the depths below 65000; when the scan id does
  not contain \<^verbatim>\<open>street\<close>, a pixel is valid exactly when its depth is greater than 0.
\<close>

theorem full_res_mask_rule:
  assumes p: "get_full_res_depth_filepath cfg w scan_id frame_id = Some p"
    and d: "imread w p = Decoded d"
  shows "\<exists>depth mask mask_b.
           load_full_res_depth_and_mask cfg w scan_id frame_id = Inr (depth, mask, [mask_b])
         \<and> (str_contains ''street'' scan_id \<and> any_below_65000 d \<longrightarrow>
              mask_b = map2d (\<lambda>x. flt x (np_quantile (values_below_65000 d) (95 / 100))) d)
         \<and> (\<not> str_contains ''street'' scan_id \<longrightarrow> mask_b = map2d (\<lambda>x. fgt x (Fin 0)) d)"
  using load_full_res_decoded [OF p d] by (auto simp: Let_def)

text \<open>
  The theorem at the specification's example, the depths 10, 20, 70000, 30: the
  percentile of 10, 20, 30 is 29; once under a scan id with \<^verbatim>\<open>street\<close>, once without.
\<close>

theorem full_res_mask_rule_witness:
  "(\<exists>depth mask. load_full_res_depth_and_mask ex_cfg depth_world ''street_1'' ''a.png'' =
       Inr (depth, mask, [[[True, True, False, False]]]))
   \<and> (\<exists>depth mask. load_full_res_depth_and_mask ex_cfg depth_world ''room'' ''a.png'' =
       Inr (depth, mask, [[[True, True, True, True]]]))
   \<and> np_quantile (values_below_65000 [[Fin 10, Fin 20, Fin 70000, Fin 30]]) (95 / 100) = Fin 29"
proof -
  have v: "values_below_65000 [[Fin 10, Fin 20, Fin 70000, Fin 30]] = [Fin 10, Fin 20, Fin 30]"
    by (simp add: values_below_65000_def below_65000_def)
  have a: "any_below_65000 [[Fin 10, Fin 20, Fin 70000, Fin 30]]"
    by (simp add: any_below_65000_def below_65000_def)
  from full_res_mask_rule [OF ex_depth_paths(1) ex_imread(1)] a
  have s: "\<exists>depth mask. load_full_res_depth_and_mask ex_cfg depth_world ''street_1'' ''a.png'' =
       Inr (depth, mask, [[[True, True, False, False]]])"
    by (simp add: v ex_quantile map2d_def)
  from full_res_mask_rule [OF ex_depth_paths(2) ex_imread(2)]
  have r: "\<exists>depth mask. load_full_res_depth_and_mask ex_cfg depth_world ''room'' ''a.png'' =
       Inr (depth, mask, [[[True, True, True, True]]])"
    by (simp add: map2d_def fgt_def)
  from s r show ?thesis by (simp add: v ex_quantile)
qed

text \<open>
  The claim as stated (the percentile rule for every scan id with \<^verbatim>\<open>street\<close>) fails where
  no depth is below 65000: for the depths 70000 and infinity under \<^verbatim>\<open>street_1\<close> the code
  marks both pixels valid, while there is no depth below 65000 to take a percentile
  of, and a rule of the form "depth below a threshold" marks the infinite depth invalid
  whatever the threshold.
\<close>

theorem full_res_street_fallback_counterexample:
  "str_contains ''street'' ''street_1''
   \<and> imread depth_world ''/data/street_1/rendered_depth/far.exr'' = Decoded [[Fin 70000, PInf]]
   \<and> values_below_65000 [[Fin 70000, PInf]] = []
   \<and> (\<exists>depth mask. load_full_res_depth_and_mask ex_cfg depth_world ''street_1'' ''images/far.png'' =
         Inr (depth, mask, [[[True, True]]]))
   \<and> (\<forall>threshold. map2d (\<lambda>x. flt x threshold) [[Fin 70000, PInf]] \<noteq> [[True, True]])"
proof -
  have v: "values_below_65000 [[Fin 70000, PInf]] = []"
    by (simp add: values_below_65000_def below_65000_def)
  have a: "\<not> any_below_65000 [[Fin 70000, PInf]]"
    by (simp add: any_below_65000_def below_65000_def)
  have l: "\<exists>depth mask. load_full_res_depth_and_mask ex_cfg depth_world ''street_1'' ''images/far.png'' =
         Inr (depth, mask, [[[True, True]]])"
    using load_full_res_decoded [OF ex_depth_paths(3) ex_imread(3)] a
    by (simp add: Let_def map2d_def fgt_def)
  have n: "\<forall>threshold. map2d (\<lambda>x. flt x threshold) [[Fin 70000, PInf]] \<noteq> [[True, True]]"
  proof
    fix threshold show "map2d (\<lambda>x. flt x threshold) [[Fin 70000, PInf]] \<noteq> [[True, True]]"
      by (cases threshold) (simp_all add: map2d_def)
  qed
  from v l n ex_imread(3) show ?thesis by simp
qed

lemma any_below_iff:
  "any_below_65000 d \<longleftrightarrow> (\<exists>row\<in>set d. \<exists>x\<in>set row. flt x (Fin 65000))"
  by (auto simp: any_below_65000_def below_65000_def list_ex_iff)

text \<open>
  Claim C10. For a scan id containing \<^verbatim>\<open>street\<close> and a depth file that decodes to \<open>d\<close>: the
  percentile rule is applied when some depth of \<open>d\<close> is below 65000, and when no depth is
  below 65000 the mask is the plain rule, depth greater than 0.
\<close>

theorem street_rule_needs_value_below:
  assumes p: "get_full_res_depth_filepath cfg w scan_id frame_id = Some p"
    and d: "imread w p = Decoded d"
    and s: "str_contains ''street'' scan_id"
  shows "\<exists>depth mask mask_b.
           load_full_res_depth_and_mask cfg w scan_id frame_id = Inr (depth, mask, [mask_b])
         \<and> ((\<exists>row\<in>set d. \<exists>x\<in>set row. flt x (Fin 65000)) \<longrightarrow>
              mask_b = map2d (\<lambda>x. flt x (np_quantile (values_below_65000 d) (95 / 100))) d)
         \<and> ((\<forall>row\<in>set d. \<forall>x\<in>set row. \<not> flt x (Fin 65000)) \<longrightarrow>
              mask_b = map2d (\<lambda>x. fgt x (Fin 0)) d)"
  using load_full_res_decoded [OF p d] s by (auto simp: Let_def any_below_iff)

text \<open>
  The theorem at two frames of scan \<^verbatim>\<open>street_1\<close>: one with no depth below 65000, one with
  three.
\<close>

theorem street_rule_needs_value_below_witness:
  "(\<exists>depth mask. load_full_res_depth_and_mask ex_cfg depth_world ''street_1'' ''images/far.png'' =
       Inr (depth, mask, [[[True, True]]]))
   \<and> (\<exists>depth mask. load_full_res_depth_and_mask ex_cfg depth_world ''street_1'' ''a.png'' =
       Inr (depth, mask, [[[True, True, False, False]]]))"
proof -
  have v: "values_below_65000 [[Fin 10, Fin 20, Fin 70000, Fin 30]] = [Fin 10, Fin 20, Fin 30]"
    by (simp add: values_below_65000_def below_65000_def)
  from street_rule_needs_value_below [OF ex_depth_paths(3) ex_imread(3) ex_street(1)]
  have f: "\<exists>depth mask. load_full_res_depth_and_mask ex_cfg depth_world ''street_1'' ''images/far.png'' =
       Inr (depth, mask, [[[True, True]]])"
    by (simp add: map2d_def fgt_def)
  from street_rule_needs_value_below [OF ex_depth_paths(1) ex_imread(1) ex_street(1)]
  have n: "\<exists>depth mask. load_full_res_depth_and_mask ex_cfg depth_world ''street_1'' ''a.png'' =
       Inr (depth, mask, [[[True, True, False, False]]])"
    by (simp add: v ex_quantile map2d_def)
  from f n show ?thesis by simp
qed











subsection \<open>Intrinsics\<close>








lemma dict_get_set: "dict_get (dict_set d k v) k' = (if k' = k then Some v else dict_get d k')"
  by (induction d) (auto simp: dict_get_def)


lemma key_or_raise_Inr: "key_or_raise v = Inr x \<longleftrightarrow> v = Some x"
  by (cases v) (simp_all add: key_or_raise_def)










lemma rot_load_intrinsics:
  "map_sum id fst (load_intrinsics exact_inv rot_cfg ex_world ''s'' ''a.png'' False) = Inr rot_intrinsics"
  by code_simp

lemma unrot_load_intrinsics:
  "map_sum id fst (load_intrinsics exact_inv (rot_cfg\<lparr>rotate_images := False\<rparr>) ex_world ''s'' ''a.png'' False)
   = Inr (dict_set (dict_set rot_intrinsics ''K_matching_b44'' (the (dict_get ex_intrinsics ''K_matching_b44'')))
            ''invK_matching_b44'' (the (dict_get ex_intrinsics ''invK_matching_b44'')))"
  by code_simp



lemma map_sum_fst_Inr: "map_sum id fst r = Inr d \<Longrightarrow> \<exists>w'. r = Inr (d, w')"
  by (cases r) auto


text \<open>
  Claim C5 fails on the code. With \<^verbatim>\<open>rotate_images\<close> set, only \<^verbatim>\<open>K_matching\<close> is rotated. Lines
  318 to 322 rotate \<open>K\<close>, but \<open>K_depth\<close> was copied from \<open>K\<close> at line 313 and \<open>K\<close> is not read
  again, so the full-depth matrix and the matrix of every scale come out the same as
  without rotation: focal lengths not swapped, principal point not moved. The last line
  is the rotated full-depth matrix the claim describes, for the depth height 2.
\<close>

theorem rotation_misses_depth_intrinsics:
  "rotate_images rot_cfg \<and> depth_height rot_cfg = 2
   \<and> (\<exists>d w'. load_intrinsics exact_inv rot_cfg ex_world ''s'' ''a.png'' False = Inr (d, w')
         \<and> dict_get d ''K_full_depth_b44'' = Some ex_K_depth
         \<and> dict_get d ''K_s0_b44'' = Some ex_K_depth
         \<and> dict_get d ''K_s1_b44'' = Some ex_K_s1)
   \<and> (\<exists>d w'. load_intrinsics exact_inv (rot_cfg\<lparr>rotate_images := False\<rparr>) ex_world ''s'' ''a.png'' False
                 = Inr (d, w')
         \<and> dict_get d ''K_full_depth_b44'' = Some ex_K_depth
         \<and> dict_get d ''K_s0_b44'' = Some ex_K_depth
         \<and> dict_get d ''K_s1_b44'' = Some ex_K_s1)
   \<and> rotate_intrinsics ex_K_depth 2 =
       [[Fin 5, Fin 0, Fin (3 / 2), Fin 0], [Fin 0, Fin (5 / 2), Fin (5 / 4), Fin 0],
        [Fin 0, Fin 0, Fin 1, Fin 0], [Fin 0, Fin 0, Fin 0, Fin 1]]"
proof -
  from map_sum_fst_Inr [OF rot_load_intrinsics] obtain w1 where
    r1: "load_intrinsics exact_inv rot_cfg ex_world ''s'' ''a.png'' False = Inr (rot_intrinsics, w1)"
    by blast
  from map_sum_fst_Inr [OF unrot_load_intrinsics] obtain w2 where
    r2: "load_intrinsics exact_inv (rot_cfg\<lparr>rotate_images := False\<rparr>) ex_world ''s'' ''a.png'' False
         = Inr (dict_set (dict_set rot_intrinsics ''K_matching_b44'' (the (dict_get ex_intrinsics ''K_matching_b44'')))
            ''invK_matching_b44'' (the (dict_get ex_intrinsics ''invK_matching_b44'')), w2)"
    by blast
  have g1: "dict_get rot_intrinsics ''K_full_depth_b44'' = Some ex_K_depth"
    "dict_get rot_intrinsics ''K_s0_b44'' = Some ex_K_depth"
    "dict_get rot_intrinsics ''K_s1_b44'' = Some ex_K_s1"
    by (simp_all add: rot_intrinsics_def dict_get_def)
  have c: "rotate_images rot_cfg \<and> depth_height rot_cfg = 2"
    by (simp add: rot_cfg_def ex_cfg_def)
  have rot: "rotate_intrinsics ex_K_depth 2 =
       [[Fin 5, Fin 0, Fin (3 / 2), Fin 0], [Fin 0, Fin (5 / 2), Fin (5 / 4), Fin 0],
        [Fin 0, Fin 0, Fin 1, Fin 0], [Fin 0, Fin 0, Fin 0, Fin 1]]"
    by (simp add: rotate_intrinsics_def ex_K_depth_def set_entry_def entry_def fsub_def Let_def)
  from r1 g1 have a: "\<exists>d w'. load_intrinsics exact_inv rot_cfg ex_world ''s'' ''a.png'' False = Inr (d, w')
         \<and> dict_get d ''K_full_depth_b44'' = Some ex_K_depth
         \<and> dict_get d ''K_s0_b44'' = Some ex_K_depth
         \<and> dict_get d ''K_s1_b44'' = Some ex_K_s1" by blast
  from r2 g1 have b: "\<exists>d w'. load_intrinsics exact_inv (rot_cfg\<lparr>rotate_images := False\<rparr>) ex_world ''s'' ''a.png'' False
                 = Inr (d, w')
         \<and> dict_get d ''K_full_depth_b44'' = Some ex_K_depth
         \<and> dict_get d ''K_s0_b44'' = Some ex_K_depth
         \<and> dict_get d ''K_s1_b44'' = Some ex_K_s1"
    by (simp add: dict_get_set)
  from c a b rot show ?thesis by blast
qed

end
